theory Spec2Isabelle
  imports Main "HOL-Library.Word"
begin

unbundle bit_operations_syntax

section \<open>Common types\<close>

type_synonym u32 = "32 word"
type_synonym u64 = "64 word"

text \<open>
  \<open>VkResult\<close> is the status code every backend call returns. The constructors are the
  codes the engine's control flow distinguishes, a few of the error codes that
  \<open>VulkanUtils::vulkanResultToString\<close> names, and \<open>VK_RESULT_OTHER\<close> for any further
  numeric code.
\<close>

datatype VkResult =
    VK_SUCCESS
  | VK_NOT_READY
  | VK_TIMEOUT
  | VK_SUBOPTIMAL_KHR
  | VK_ERROR_OUT_OF_DATE_KHR
  | VK_ERROR_DEVICE_LOST
  | VK_ERROR_OUT_OF_HOST_MEMORY
  | VK_ERROR_OUT_OF_DEVICE_MEMORY
  | VK_ERROR_SURFACE_LOST_KHR
  | VK_RESULT_OTHER int

text \<open>
  Every exception of the modelled code is a \<open>std::runtime_error\<close>. \<open>RuntimeError\<close> carries
  a literal message, \<open>ResultError\<close> a message followed by \<open>vulkanResultToString(result)\<close>,
  and \<open>CheckFailed\<close> is what \<open>VK_CHECK(result, operation)\<close>
  (\<open>VulkanUtils::checkVulkanResult\<close>) throws for a result other than \<open>VK_SUCCESS\<close>.
\<close>

datatype error =
    RuntimeError string
  | ResultError string VkResult
  | CheckFailed string VkResult

definition checkVulkanResult :: "VkResult \<Rightarrow> string \<Rightarrow> error option" where
  "checkVulkanResult result operation =
     (if result = VK_SUCCESS then None else Some (CheckFailed operation result))"

section \<open>VulkanSwapchain: presentation parameters\<close>

datatype VkPresentModeKHR =
    VK_PRESENT_MODE_IMMEDIATE_KHR
  | VK_PRESENT_MODE_MAILBOX_KHR
  | VK_PRESENT_MODE_FIFO_KHR
  | VK_PRESENT_MODE_FIFO_RELAXED_KHR
  | VK_PRESENT_MODE_SHARED_DEMAND_REFRESH_KHR
  | VK_PRESENT_MODE_SHARED_CONTINUOUS_REFRESH_KHR

text \<open>
  \<open>VulkanSwapchain::choosePresentMode\<close>: a loop that returns the first available mode equal
  to \<open>VK_PRESENT_MODE_MAILBOX_KHR\<close>, then a loop that returns the first one equal to
  \<open>VK_PRESENT_MODE_IMMEDIATE_KHR\<close>, then the fallback \<open>VK_PRESENT_MODE_FIFO_KHR\<close>.
\<close>

definition choosePresentMode :: "VkPresentModeKHR list \<Rightarrow> VkPresentModeKHR" where
  "choosePresentMode availablePresentModes =
     (case find (\<lambda>availablePresentMode. availablePresentMode = VK_PRESENT_MODE_MAILBOX_KHR)
             availablePresentModes of
        Some availablePresentMode \<Rightarrow> availablePresentMode
      | None \<Rightarrow>
          (case find (\<lambda>availablePresentMode. availablePresentMode = VK_PRESENT_MODE_IMMEDIATE_KHR)
                  availablePresentModes of
             Some availablePresentMode \<Rightarrow> availablePresentMode
           | None \<Rightarrow> VK_PRESENT_MODE_FIFO_KHR))"

text \<open>The two fields of \<open>VkSurfaceCapabilitiesKHR\<close> that \<open>chooseImageCount\<close> reads.\<close>

record VkSurfaceCapabilitiesKHR =
  minImageCount :: u32
  maxImageCount :: u32

text \<open>
  \<open>VulkanSwapchain::chooseImageCount\<close>. All values are \<open>uint32_t\<close>, so \<open>minImageCount + 1\<close>
  is the wrapping sum of 32-bit words.
\<close>

definition chooseImageCount :: "VkSurfaceCapabilitiesKHR \<Rightarrow> u32" where
  "chooseImageCount capabilities =
     (let imageCount = minImageCount capabilities + 1 in
      if maxImageCount capabilities > 0 \<and> imageCount > maxImageCount capabilities
      then maxImageCount capabilities
      else imageCount)"

section \<open>VulkanBuffer: memory type selection\<close>

record VkMemoryType =
  propertyFlags :: u32
  heapIndex :: u32

text \<open>
  \<open>VkPhysicalDeviceMemoryProperties\<close> is modelled by the list of its first
  \<open>memoryTypeCount\<close> entries of \<open>memoryTypes\<close>; the backend's array has room for 32.
\<close>

type_synonym VkPhysicalDeviceMemoryProperties = "VkMemoryType list"

text \<open>
  The loop of \<open>VulkanBuffer::findMemoryType\<close>, entered at index \<open>i\<close> with the entries from
  \<open>i\<close> on still to visit. \<open>typeFilter & (1 << i)\<close> is the 32-bit conjunction with the
  shifted one; the index stays below 32, the size of the backend's array, where the
  shift is defined.
\<close>

fun findMemoryType_from ::
  "nat \<Rightarrow> VkMemoryType list \<Rightarrow> u32 \<Rightarrow> u32 \<Rightarrow> nat option" where
  "findMemoryType_from i [] typeFilter properties = None"
| "findMemoryType_from i (memoryType # rest) typeFilter properties =
     (let typeSupported = (typeFilter AND push_bit i 1 \<noteq> 0);
          hasRequiredProperties = (propertyFlags memoryType AND properties = properties)
      in if typeSupported \<and> hasRequiredProperties then Some i
         else findMemoryType_from (Suc i) rest typeFilter properties)"

definition findMemoryType ::
  "VkPhysicalDeviceMemoryProperties \<Rightarrow> u32 \<Rightarrow> u32 \<Rightarrow> error + nat" where
  "findMemoryType memProperties typeFilter properties =
     (case findMemoryType_from 0 memProperties typeFilter properties of
        Some i \<Rightarrow> Inr i
      | None \<Rightarrow> Inl (RuntimeError ''Failed to find suitable memory type for buffer''))"

text \<open>
  The property the search looks for, as the specification words it: bit \<open>i\<close> of the
  buffer's supported-types mask is set, and memory type \<open>i\<close> has every requested flag.
\<close>

definition memory_type_fits ::
  "VkPhysicalDeviceMemoryProperties \<Rightarrow> u32 \<Rightarrow> u32 \<Rightarrow> nat \<Rightarrow> bool" where
  "memory_type_fits memProperties typeFilter properties i =
     (bit typeFilter i \<and> propertyFlags (memProperties ! i) AND properties = properties)"

section \<open>The graphics backend\<close>

text \<open>
  The backend (device, queues, presentation engine) is outside the repository. The model
  keeps what the engine can observe of it: for every fence whether it is signaled, the
  next fresh object handle, and the history of the calls made so far, oldest first.
  What a call returns is an argument of the modelled function: the status the device
  reports for that call. \<open>VK_NULL_HANDLE\<close> is the handle 0.
\<close>

type_synonym handle = nat

datatype vk_command =
    CmdBeginRenderPass u32
  | CmdBindPipeline handle
  | CmdSetViewport
  | CmdSetScissor
  | CmdBindVertexBuffers u32 "handle list" "u64 list"
  | CmdBindIndexBuffer handle u64
  | CmdBindDescriptorSets "handle list"
  | CmdDrawIndexed u32 u32
  | CmdDraw u32 u32
  | CmdEndRenderPass

datatype vk_call =
    CreateSemaphore
  | CreateFence bool
  | WaitForFences "handle list" u64
  | ResetFences "handle list"
  | AcquireNextImageKHR u64 handle handle
  | MapMemory handle
  | ResetCommandBuffer handle
  | BeginCommandBuffer handle
  | Cmd handle vk_command
  | EndCommandBuffer handle
  | QueueSubmit "handle list" "handle list" "u32 list" "handle list" handle
  | QueuePresentKHR u32 "handle list"
  | DeviceWaitIdle
  | DestroyChainResources
  | CreateSwapchainKHR u32 u32
  | CreateFramebuffers
  | CreateGraphicsPipeline

record vk_backend =
  fence_signaled :: "handle \<Rightarrow> bool"
  next_handle :: handle
  calls :: "vk_call list"

definition called :: "vk_backend \<Rightarrow> vk_call \<Rightarrow> vk_backend" where
  "called b c = b\<lparr>calls := calls b @ [c]\<rparr>"

text \<open>
  \<open>vkCreateSemaphore\<close> and \<open>vkCreateFence\<close>: on success the object gets the next fresh
  handle; a fence created with \<open>VK_FENCE_CREATE_SIGNALED_BIT\<close> starts signaled.
\<close>

definition vkCreateSemaphore :: "vk_backend \<Rightarrow> VkResult \<Rightarrow> VkResult \<times> handle \<times> vk_backend" where
  "vkCreateSemaphore b reported =
     (if reported = VK_SUCCESS
      then (VK_SUCCESS, next_handle b,
            (called b CreateSemaphore)\<lparr>next_handle := Suc (next_handle b)\<rparr>)
      else (reported, 0, called b CreateSemaphore))"

definition vkCreateFence ::
  "vk_backend \<Rightarrow> bool \<Rightarrow> VkResult \<Rightarrow> VkResult \<times> handle \<times> vk_backend" where
  "vkCreateFence b signaled_bit reported =
     (if reported = VK_SUCCESS
      then (VK_SUCCESS, next_handle b,
            (called b (CreateFence signaled_bit))
              \<lparr>fence_signaled := (fence_signaled b)(next_handle b := signaled_bit),
               next_handle := Suc (next_handle b)\<rparr>)
      else (reported, 0, called b (CreateFence signaled_bit)))"

text \<open>
  \<open>vkWaitForFences\<close> with \<open>waitAll = VK_TRUE\<close>: when every fence is already signaled the
  call returns \<open>VK_SUCCESS\<close> at once. Otherwise it returns what the device reports once
  the wait ends: \<open>VK_SUCCESS\<close> when the pending work completed (the fences are then
  signaled), \<open>VK_TIMEOUT\<close>, or an error.
\<close>

definition vkWaitForFences ::
  "vk_backend \<Rightarrow> handle list \<Rightarrow> u64 \<Rightarrow> VkResult \<Rightarrow> VkResult \<times> vk_backend" where
  "vkWaitForFences b fences timeout reported =
     (let b' = called b (WaitForFences fences timeout) in
      if list_all (fence_signaled b) fences then (VK_SUCCESS, b')
      else if reported = VK_SUCCESS
      then (VK_SUCCESS,
            b'\<lparr>fence_signaled := (\<lambda>f. List.member fences f \<or> fence_signaled b f)\<rparr>)
      else (reported, b'))"

definition vkResetFences ::
  "vk_backend \<Rightarrow> handle list \<Rightarrow> VkResult \<Rightarrow> VkResult \<times> vk_backend" where
  "vkResetFences b fences reported =
     (let b' = called b (ResetFences fences) in
      if reported = VK_SUCCESS
      then (VK_SUCCESS,
            b'\<lparr>fence_signaled := (\<lambda>f. \<not> List.member fences f \<and> fence_signaled b f)\<rparr>)
      else (reported, b'))"

section \<open>VulkanSynchronization\<close>

record FrameSyncObjects =
  imageAvailableSemaphore :: handle
  renderFinishedSemaphore :: handle
  inFlightFence :: handle

text \<open>The default constructor of \<open>FrameSyncObjects\<close>: three null handles.\<close>

definition FrameSyncObjects_new :: FrameSyncObjects where
  "FrameSyncObjects_new =
     \<lparr>imageAvailableSemaphore = 0, renderFinishedSemaphore = 0, inFlightFence = 0\<rparr>"

record VulkanSynchronization =
  m_maxFramesInFlight :: u32
  m_frameSyncObjects :: "FrameSyncObjects list"

definition VulkanSynchronization_new :: VulkanSynchronization where
  "VulkanSynchronization_new = \<lparr>m_maxFramesInFlight = 0, m_frameSyncObjects = []\<rparr>"

text \<open>What the device reports for the three objects of one frame slot.\<close>

record slot_create_env =
  imageAvailableReported :: VkResult
  renderFinishedReported :: VkResult
  inFlightReported :: VkResult

definition createSemaphoreInternal ::
  "vk_backend \<Rightarrow> string \<Rightarrow> VkResult \<Rightarrow> (error + handle) \<times> vk_backend" where
  "createSemaphoreInternal b name reported =
     (case vkCreateSemaphore b reported of
        (result, semaphore, b') \<Rightarrow>
          (case checkVulkanResult result (''Failed to create semaphore: '' @ name) of
             Some e \<Rightarrow> (Inl e, b')
           | None \<Rightarrow> (Inr semaphore, b')))"

definition createFenceInternal ::
  "vk_backend \<Rightarrow> bool \<Rightarrow> string \<Rightarrow> VkResult \<Rightarrow> (error + handle) \<times> vk_backend" where
  "createFenceInternal b signaled name reported =
     (case vkCreateFence b signaled reported of
        (result, fence, b') \<Rightarrow>
          (case checkVulkanResult result (''Failed to create fence: '' @ name) of
             Some e \<Rightarrow> (Inl e, b')
           | None \<Rightarrow> (Inr fence, b')))"

text \<open>\<open>std::vector::resize\<close> with default-constructed new elements.\<close>

definition resize :: "nat \<Rightarrow> 'a \<Rightarrow> 'a list \<Rightarrow> 'a list" where
  "resize n dflt xs = take n xs @ replicate (n - length xs) dflt"

text \<open>
  The loop of \<open>VulkanSynchronization::create\<close> over the slot indices still to visit. The
  name of a slot's objects starts with \<open>"Frame " + std::to_string(i)\<close> and only reaches
  log lines and error messages; the model leaves the number out.
\<close>

fun create_loop ::
  "nat list \<Rightarrow> (nat \<Rightarrow> slot_create_env) \<Rightarrow> FrameSyncObjects list \<Rightarrow> vk_backend
     \<Rightarrow> error option \<times> FrameSyncObjects list \<times> vk_backend" where
  "create_loop [] reported objs b = (None, objs, b)"
| "create_loop (i # rest) reported objs b =
     (case createSemaphoreInternal b ''Frame Image Available''
             (imageAvailableReported (reported i)) of
        (Inl e, b1) \<Rightarrow> (Some e, objs, b1)
      | (Inr sem1, b1) \<Rightarrow>
          (let objs1 = objs[i := (objs ! i)\<lparr>imageAvailableSemaphore := sem1\<rparr>] in
           case createSemaphoreInternal b1 ''Frame Render Finished''
                  (renderFinishedReported (reported i)) of
             (Inl e, b2) \<Rightarrow> (Some e, objs1, b2)
           | (Inr sem2, b2) \<Rightarrow>
               (let objs2 = objs1[i := (objs1 ! i)\<lparr>renderFinishedSemaphore := sem2\<rparr>] in
                case createFenceInternal b2 True ''Frame In Flight''
                       (inFlightReported (reported i)) of
                  (Inl e, b3) \<Rightarrow> (Some e, objs2, b3)
                | (Inr fence, b3) \<Rightarrow>
                    create_loop rest reported
                      (objs2[i := (objs2 ! i)\<lparr>inFlightFence := fence\<rparr>]) b3)))"

definition create ::
  "VulkanSynchronization \<Rightarrow> vk_backend \<Rightarrow> u32 \<Rightarrow> (nat \<Rightarrow> slot_create_env)
     \<Rightarrow> error option \<times> VulkanSynchronization \<times> vk_backend" where
  "create sync b maxFramesInFlight reported =
     (case create_loop [0 ..< unat maxFramesInFlight] reported
             (resize (unat maxFramesInFlight) FrameSyncObjects_new (m_frameSyncObjects sync)) b of
        (thrown, objs, b') \<Rightarrow>
          (thrown,
           \<lparr>m_maxFramesInFlight = maxFramesInFlight, m_frameSyncObjects = objs\<rparr>, b'))"

definition waitForFrame ::
  "VulkanSynchronization \<Rightarrow> vk_backend \<Rightarrow> u32 \<Rightarrow> u64 \<Rightarrow> VkResult
     \<Rightarrow> (error + bool) \<times> vk_backend" where
  "waitForFrame sync b frameIndex timeout reported =
     (if unat frameIndex \<ge> length (m_frameSyncObjects sync)
      then (Inl (RuntimeError ''Frame index out of range''), b)
      else
        (let fence = inFlightFence (m_frameSyncObjects sync ! unat frameIndex) in
         case vkWaitForFences b [fence] timeout reported of
           (result, b') \<Rightarrow>
             if result = VK_SUCCESS then (Inr True, b')
             else if result = VK_TIMEOUT then (Inr False, b')
             else (Inl (CheckFailed ''Failed to wait for frame fence'' result), b')))"

definition resetFrameFence ::
  "VulkanSynchronization \<Rightarrow> vk_backend \<Rightarrow> u32 \<Rightarrow> VkResult \<Rightarrow> error option \<times> vk_backend" where
  "resetFrameFence sync b frameIndex reported =
     (if unat frameIndex \<ge> length (m_frameSyncObjects sync)
      then (Some (RuntimeError ''Frame index out of range''), b)
      else
        (let fence = inFlightFence (m_frameSyncObjects sync ! unat frameIndex) in
         case vkResetFences b [fence] reported of
           (result, b') \<Rightarrow> (checkVulkanResult result ''Failed to reset frame fence'', b')))"

definition getFrameSyncObjects :: "VulkanSynchronization \<Rightarrow> u32 \<Rightarrow> error + FrameSyncObjects" where
  "getFrameSyncObjects sync frameIndex =
     (if unat frameIndex \<ge> length (m_frameSyncObjects sync)
      then Inl (RuntimeError ''Frame index out of range'')
      else Inr (m_frameSyncObjects sync ! unat frameIndex))"

definition submitCommandBuffers ::
  "vk_backend \<Rightarrow> handle list \<Rightarrow> handle list \<Rightarrow> u32 list \<Rightarrow> handle list \<Rightarrow> handle \<Rightarrow> VkResult
     \<Rightarrow> error option \<times> vk_backend" where
  "submitCommandBuffers b commandBuffers waitSemaphores waitStages signalSemaphores fence reported =
     (if length waitSemaphores \<noteq> length waitStages
      then (Some (RuntimeError ''Number of wait semaphores must match number of wait stages''), b)
      else
        (checkVulkanResult reported ''Failed to submit command buffers to queue'',
         called b (QueueSubmit commandBuffers waitSemaphores waitStages signalSemaphores fence)))"

definition presentImage ::
  "vk_backend \<Rightarrow> u32 \<Rightarrow> handle list \<Rightarrow> VkResult \<Rightarrow> VkResult \<times> vk_backend" where
  "presentImage b imageIndex waitSemaphores reported =
     (reported, called b (QueuePresentKHR imageIndex waitSemaphores))"

definition acquireNextImage ::
  "vk_backend \<Rightarrow> u64 \<Rightarrow> handle \<Rightarrow> handle \<Rightarrow> VkResult \<Rightarrow> VkResult \<times> vk_backend" where
  "acquireNextImage b timeout semaphore fence reported =
     (reported, called b (AcquireNextImageKHR timeout semaphore fence))"

text \<open>
  A run of \<open>waitForFrame\<close> calls, one per listed slot, each on the backend the previous
  call left; \<open>reported\<close> gives what the device would report for the k-th wait.
\<close>

fun wait_each ::
  "VulkanSynchronization \<Rightarrow> vk_backend \<Rightarrow> u32 list \<Rightarrow> u64 \<Rightarrow> (u32 \<Rightarrow> VkResult)
     \<Rightarrow> (error + bool) list \<times> vk_backend" where
  "wait_each sync b [] timeout reported = ([], b)"
| "wait_each sync b (i # rest) timeout reported =
     (case waitForFrame sync b i timeout (reported i) of
        (r, b') \<Rightarrow>
          (case wait_each sync b' rest timeout reported of
             (rs, b'') \<Rightarrow> (r # rs, b'')))"

section \<open>VulkanCommandPool: recording\<close>

text \<open>Commands recorded into a command buffer, appended to the history in order.\<close>

definition recorded :: "vk_backend \<Rightarrow> handle \<Rightarrow> vk_command list \<Rightarrow> vk_backend" where
  "recorded b commandBuffer cmds = b\<lparr>calls := calls b @ map (Cmd commandBuffer) cmds\<rparr>"

definition bindVertexBuffers ::
  "vk_backend \<Rightarrow> handle \<Rightarrow> u32 \<Rightarrow> handle list \<Rightarrow> u64 list \<Rightarrow> error option \<times> vk_backend" where
  "bindVertexBuffers b commandBuffer firstBinding buffers offsets =
     (if length buffers \<noteq> length offsets
      then (Some (RuntimeError ''Number of vertex buffers must match number of offsets''), b)
      else (None, recorded b commandBuffer [CmdBindVertexBuffers firstBinding buffers offsets]))"

text \<open>
  \<open>recordFrameCommands\<close>: render pass begin, pipeline, viewport and scissor; the vertex
  buffers when there are any (which can throw); then index buffer, descriptor sets, the
  draw call and the end of the render pass.
\<close>

definition recordFrameCommands ::
  "vk_backend \<Rightarrow> handle \<Rightarrow> u32 \<Rightarrow> handle \<Rightarrow> handle list \<Rightarrow> u64 list \<Rightarrow> handle \<Rightarrow> u64
     \<Rightarrow> handle list \<Rightarrow> u32 \<Rightarrow> u32 \<Rightarrow> u32 \<Rightarrow> error option \<times> vk_backend" where
  "recordFrameCommands b commandBuffer framebuffer pipeline vertexBuffers vertexOffsets
       indexBuffer indexOffset descriptorSets vertexCount indexCount instanceCount =
     (case (if vertexBuffers \<noteq> []
            then bindVertexBuffers
                   (recorded b commandBuffer
                      [CmdBeginRenderPass framebuffer, CmdBindPipeline pipeline,
                       CmdSetViewport, CmdSetScissor])
                   commandBuffer 0 vertexBuffers vertexOffsets
            else (None,
                  recorded b commandBuffer
                    [CmdBeginRenderPass framebuffer, CmdBindPipeline pipeline,
                     CmdSetViewport, CmdSetScissor])) of
        (Some e, b1) \<Rightarrow> (Some e, b1)
      | (None, b1) \<Rightarrow>
          (None,
           recorded b1 commandBuffer
             ((if indexBuffer \<noteq> 0 then [CmdBindIndexBuffer indexBuffer indexOffset] else [])
              @ (if descriptorSets \<noteq> [] then [CmdBindDescriptorSets descriptorSets] else [])
              @ (if indexBuffer \<noteq> 0 \<and> indexCount > 0
                 then [CmdDrawIndexed indexCount instanceCount]
                 else if vertexCount > 0 then [CmdDraw vertexCount instanceCount] else [])
              @ [CmdEndRenderPass])))"

section \<open>VulkanEngine\<close>

definition MAX_FRAMES_IN_FLIGHT :: u32 where
  "MAX_FRAMES_IN_FLIGHT = 2"

definition UINT64_MAX :: u64 where
  "UINT64_MAX = - 1"

definition VK_PIPELINE_STAGE_COLOR_ATTACHMENT_OUTPUT_BIT :: u32 where
  "VK_PIPELINE_STAGE_COLOR_ATTACHMENT_OUTPUT_BIT = 0x400"

datatype InitializationState =
    NOT_INITIALIZED
  | INSTANCE_CREATED
  | SURFACE_CREATED
  | DEVICE_CREATED
  | SWAPCHAIN_CREATED
  | RENDER_PASS_CREATED
  | PIPELINE_CREATED
  | DESCRIPTORS_CREATED
  | BUFFERS_CREATED
  | COMMAND_POOL_CREATED
  | SYNCHRONIZATION_CREATED
  | CHARACTER_LOADED
  | FULLY_INITIALIZED

record MainCharacter =
  isLoaded :: bool
  characterVertexBuffer :: handle
  characterIndexBuffer :: handle
  characterIndexCount :: u32

text \<open>
  The members of \<open>VulkanEngine\<close> that the frame protocol reads or writes. Times are counts
  of clock ticks instead of \<open>float\<close> seconds; the scene matrices, which no control flow
  depends on, are left out. \<open>m_swapchainImages\<close> and \<open>m_framebuffers\<close> are the sizes of
  the swapchain's image list and of the render pass's framebuffer list. \<open>gpu\<close> is the
  backend the engine talks to.
\<close>

record VulkanEngine =
  m_initState :: InitializationState
  m_windowWidth :: u32
  m_windowHeight :: u32
  m_currentFrame :: u32
  m_frameCount :: u64
  m_lastFrameTime :: nat
  m_time :: nat
  m_device :: handle
  m_synchronization :: VulkanSynchronization
  m_swapchain :: handle
  m_swapchainImages :: nat
  m_framebuffers :: nat
  m_pipeline :: handle
  m_commandBuffers :: "handle list"
  m_uniformBuffers :: "handle list"
  m_descriptorSets :: "handle list"
  m_vertexBuffer :: handle
  m_indexBuffer :: handle
  m_useMainCharacter :: bool
  m_mainCharacter :: MainCharacter
  gpu :: vk_backend

text \<open>
  What the device reports during one \<open>recreateSwapchain\<close>: for \<open>vkDeviceWaitIdle\<close>, for
  the creation of the swapchain with its images and views, for the render pass with
  depth buffer and framebuffers, and for the pipeline.
\<close>

record recreate_env =
  waitIdleReported :: VkResult
  swapchainReported :: VkResult
  swapchainImageCount :: nat
  framebuffersReported :: VkResult
  pipelineReported :: VkResult

text \<open>
  What the device reports during one \<open>render\<close> call, one field per call site, and the
  wall-clock duration measured for the call. \<open>tryRecreate\<close> answers the
  \<open>recreateSwapchain\<close> inside the \<open>try\<close> block, \<open>catchRecreate\<close> the one in the handler.
\<close>

record frame_env =
  waitReported :: VkResult
  acquireReported :: VkResult
  acquiredImageIndex :: u32
  resetFenceReported :: VkResult
  mapMemoryReported :: VkResult
  resetCommandBufferReported :: VkResult
  beginCommandBufferReported :: VkResult
  endCommandBufferReported :: VkResult
  queueSubmitReported :: VkResult
  presentReported :: VkResult
  tryRecreate :: recreate_env
  catchRecreate :: recreate_env
  frameDuration :: nat

text \<open>How a \<open>render\<close> call ends: by which \<open>return\<close>, or with which exception.\<close>

datatype render_exit =
    FrameCompleted
  | ReturnedMinimized
  | ReturnedWaitFailed
  | ReturnedOutOfDate
  | Recovered error
  | Threw error

definition waitIdle :: "VulkanEngine \<Rightarrow> VkResult \<Rightarrow> error option \<times> VulkanEngine" where
  "waitIdle s reported =
     (if m_device s \<noteq> 0
      then (checkVulkanResult reported ''Failed to wait for device idle'',
            s\<lparr>gpu := called (gpu s) DeviceWaitIdle\<rparr>)
      else (None, s))"

text \<open>
  The steps of \<open>recreateSwapchain\<close> after the wait: the cleanup of render pass, pipeline,
  depth buffer and swapchain; \<open>m_swapchain.create\<close> at the window size; the render pass
  with depth buffer and framebuffers, one framebuffer per swapchain image; the pipeline.
\<close>

definition destroyChainResources :: "VulkanEngine \<Rightarrow> VulkanEngine" where
  "destroyChainResources s =
     s\<lparr>m_framebuffers := 0, m_pipeline := 0, m_swapchain := 0, m_swapchainImages := 0,
       gpu := called (gpu s) DestroyChainResources\<rparr>"

definition createSwapchain :: "VulkanEngine \<Rightarrow> VkResult \<Rightarrow> nat \<Rightarrow> error option \<times> VulkanEngine" where
  "createSwapchain s reported imageCount =
     (case checkVulkanResult reported ''Failed to create swapchain'' of
        Some e \<Rightarrow>
          (Some e,
           s\<lparr>gpu := called (gpu s) (CreateSwapchainKHR (m_windowWidth s) (m_windowHeight s))\<rparr>)
      | None \<Rightarrow>
          (None,
           s\<lparr>m_swapchain := next_handle (gpu s), m_swapchainImages := imageCount,
             gpu := (called (gpu s) (CreateSwapchainKHR (m_windowWidth s) (m_windowHeight s)))
                      \<lparr>next_handle := Suc (next_handle (gpu s))\<rparr>\<rparr>))"

definition createFramebuffers :: "VulkanEngine \<Rightarrow> VkResult \<Rightarrow> error option \<times> VulkanEngine" where
  "createFramebuffers s reported =
     (case checkVulkanResult reported ''Failed to create framebuffer'' of
        Some e \<Rightarrow> (Some e, s\<lparr>gpu := called (gpu s) CreateFramebuffers\<rparr>)
      | None \<Rightarrow>
          (None,
           s\<lparr>m_framebuffers := m_swapchainImages s,
             gpu := called (gpu s) CreateFramebuffers\<rparr>))"

definition createGraphicsPipeline :: "VulkanEngine \<Rightarrow> VkResult \<Rightarrow> error option \<times> VulkanEngine" where
  "createGraphicsPipeline s reported =
     (case checkVulkanResult reported ''Failed to create graphics pipeline'' of
        Some e \<Rightarrow> (Some e, s\<lparr>gpu := called (gpu s) CreateGraphicsPipeline\<rparr>)
      | None \<Rightarrow>
          (None,
           s\<lparr>m_pipeline := next_handle (gpu s),
             gpu := (called (gpu s) CreateGraphicsPipeline)
                      \<lparr>next_handle := Suc (next_handle (gpu s))\<rparr>\<rparr>))"

definition recreateSwapchain :: "VulkanEngine \<Rightarrow> recreate_env \<Rightarrow> error option \<times> VulkanEngine" where
  "recreateSwapchain s reported =
     (case waitIdle s (waitIdleReported reported) of
        (Some e, s1) \<Rightarrow> (Some e, s1)
      | (None, s1) \<Rightarrow>
          (case createSwapchain (destroyChainResources s1) (swapchainReported reported)
                  (swapchainImageCount reported) of
             (Some e, s2) \<Rightarrow> (Some e, s2)
           | (None, s2) \<Rightarrow>
               (case createFramebuffers s2 (framebuffersReported reported) of
                  (Some e, s3) \<Rightarrow> (Some e, s3)
                | (None, s3) \<Rightarrow> createGraphicsPipeline s3 (pipelineReported reported))))"

definition updateScene :: "VulkanEngine \<Rightarrow> nat \<Rightarrow> VulkanEngine" where
  "updateScene s deltaTime = s\<lparr>m_time := m_time s + deltaTime\<rparr>"

text \<open>
  \<open>updateUniformBuffer\<close>: \<open>uploadData\<close> maps the slot's host-visible, coherent uniform
  buffer, copies the matrices and unmaps; only the mapping can fail.
\<close>

definition updateUniformBuffer ::
  "VulkanEngine \<Rightarrow> u32 \<Rightarrow> VkResult \<Rightarrow> error option \<times> VulkanEngine" where
  "updateUniformBuffer s currentImage reported =
     (checkVulkanResult reported ''Failed to map buffer memory'',
      s\<lparr>gpu := called (gpu s) (MapMemory (m_uniformBuffers s ! unat currentImage))\<rparr>)"

definition resetCommandBuffer ::
  "VulkanEngine \<Rightarrow> handle \<Rightarrow> VkResult \<Rightarrow> error option \<times> VulkanEngine" where
  "resetCommandBuffer s commandBuffer reported =
     (checkVulkanResult reported ''Failed to reset command buffer'',
      s\<lparr>gpu := called (gpu s) (ResetCommandBuffer commandBuffer)\<rparr>)"

definition beginCommandBuffer ::
  "VulkanEngine \<Rightarrow> handle \<Rightarrow> VkResult \<Rightarrow> error option \<times> VulkanEngine" where
  "beginCommandBuffer s commandBuffer reported =
     (checkVulkanResult reported ''Failed to begin recording command buffer'',
      s\<lparr>gpu := called (gpu s) (BeginCommandBuffer commandBuffer)\<rparr>)"

definition endCommandBuffer ::
  "VulkanEngine \<Rightarrow> handle \<Rightarrow> VkResult \<Rightarrow> error option \<times> VulkanEngine" where
  "endCommandBuffer s commandBuffer reported =
     (checkVulkanResult reported ''Failed to end recording command buffer'',
      s\<lparr>gpu := called (gpu s) (EndCommandBuffer commandBuffer)\<rparr>)"

text \<open>
  The geometry \<open>recordCommandBuffer\<close> draws: the character's buffers when it is in use and
  loaded, else the fallback cube with its 36 indices.
\<close>

definition frameVertexBuffer :: "VulkanEngine \<Rightarrow> handle" where
  "frameVertexBuffer s =
     (if m_useMainCharacter s \<and> isLoaded (m_mainCharacter s)
      then characterVertexBuffer (m_mainCharacter s) else m_vertexBuffer s)"

definition frameIndexBuffer :: "VulkanEngine \<Rightarrow> handle" where
  "frameIndexBuffer s =
     (if m_useMainCharacter s \<and> isLoaded (m_mainCharacter s)
      then characterIndexBuffer (m_mainCharacter s) else m_indexBuffer s)"

definition frameIndexCount :: "VulkanEngine \<Rightarrow> u32" where
  "frameIndexCount s =
     (if m_useMainCharacter s \<and> isLoaded (m_mainCharacter s)
      then characterIndexCount (m_mainCharacter s) else 36)"

definition recordCommandBuffer ::
  "VulkanEngine \<Rightarrow> handle \<Rightarrow> u32 \<Rightarrow> VkResult \<Rightarrow> VkResult \<Rightarrow> error option \<times> VulkanEngine" where
  "recordCommandBuffer s commandBuffer imageIndex beginReported endReported =
     (case beginCommandBuffer s commandBuffer beginReported of
        (Some e, s1) \<Rightarrow> (Some e, s1)
      | (None, s1) \<Rightarrow>
          if unat imageIndex \<ge> m_framebuffers s1
          then (Some (RuntimeError ''Image index out of range for framebuffers''), s1)
          else
            (case recordFrameCommands (gpu s1) commandBuffer imageIndex (m_pipeline s1)
                    [frameVertexBuffer s1] [0] (frameIndexBuffer s1) 0
                    [m_descriptorSets s1 ! unat (m_currentFrame s1)]
                    0 (frameIndexCount s1) 1 of
               (Some e, b) \<Rightarrow> (Some e, s1\<lparr>gpu := b\<rparr>)
             | (None, b) \<Rightarrow> endCommandBuffer (s1\<lparr>gpu := b\<rparr>) commandBuffer endReported))"

text \<open>
  The \<open>try\<close> block of \<open>VulkanEngine::render\<close>, in three parts. \<open>render_present\<close> is the
  presentation and the advance of the frame state (from "Present the image" on).
\<close>

definition render_present ::
  "VulkanEngine \<Rightarrow> frame_env \<Rightarrow> u32 \<Rightarrow> handle list \<Rightarrow> (error + render_exit) \<times> VulkanEngine" where
  "render_present s env imageIndex signalSemaphores =
     (case presentImage (gpu s) imageIndex signalSemaphores (presentReported env) of
        (result, b) \<Rightarrow>
          (case (if result = VK_ERROR_OUT_OF_DATE_KHR \<or> result = VK_SUBOPTIMAL_KHR
                 then recreateSwapchain (s\<lparr>gpu := b\<rparr>) (tryRecreate env)
                 else if result \<noteq> VK_SUCCESS
                 then (Some (ResultError ''Failed to present swapchain image: '' result),
                       s\<lparr>gpu := b\<rparr>)
                 else (None, s\<lparr>gpu := b\<rparr>)) of
             (Some e, s1) \<Rightarrow> (Inl e, s1)
           | (None, s1) \<Rightarrow>
               (Inr FrameCompleted,
                s1\<lparr>m_currentFrame := (m_currentFrame s1 + 1) mod MAX_FRAMES_IN_FLIGHT,
                   m_frameCount := m_frameCount s1 + 1,
                   m_lastFrameTime := frameDuration env\<rparr>)))"

text \<open>
  \<open>render_draw\<close> is the part from "Reset fence for this frame" to the submission: fence
  reset, scene and uniform update, command recording, queue submission.
\<close>

definition render_draw ::
  "VulkanEngine \<Rightarrow> frame_env \<Rightarrow> u32 \<Rightarrow> (error + render_exit) \<times> VulkanEngine" where
  "render_draw s env imageIndex =
     (case resetFrameFence (m_synchronization s) (gpu s) (m_currentFrame s)
             (resetFenceReported env) of
        (Some e, b1) \<Rightarrow> (Inl e, s\<lparr>gpu := b1\<rparr>)
      | (None, b1) \<Rightarrow>
          (case updateUniformBuffer (updateScene (s\<lparr>gpu := b1\<rparr>) (m_lastFrameTime s))
                  (m_currentFrame s) (mapMemoryReported env) of
             (Some e, s2) \<Rightarrow> (Inl e, s2)
           | (None, s2) \<Rightarrow>
               (case resetCommandBuffer s2 (m_commandBuffers s2 ! unat (m_currentFrame s2))
                       (resetCommandBufferReported env) of
                  (Some e, s3) \<Rightarrow> (Inl e, s3)
                | (None, s3) \<Rightarrow>
                    (case recordCommandBuffer s3
                            (m_commandBuffers s3 ! unat (m_currentFrame s3)) imageIndex
                            (beginCommandBufferReported env) (endCommandBufferReported env) of
                       (Some e, s4) \<Rightarrow> (Inl e, s4)
                     | (None, s4) \<Rightarrow>
                         (case getFrameSyncObjects (m_synchronization s4) (m_currentFrame s4) of
                            Inl e \<Rightarrow> (Inl e, s4)
                          | Inr slot \<Rightarrow>
                              (case submitCommandBuffers (gpu s4)
                                      [m_commandBuffers s4 ! unat (m_currentFrame s4)]
                                      [imageAvailableSemaphore slot]
                                      [VK_PIPELINE_STAGE_COLOR_ATTACHMENT_OUTPUT_BIT]
                                      [renderFinishedSemaphore slot]
                                      (inFlightFence slot) (queueSubmitReported env) of
                                 (Some e, b5) \<Rightarrow> (Inl e, s4\<lparr>gpu := b5\<rparr>)
                               | (None, b5) \<Rightarrow>
                                   render_present (s4\<lparr>gpu := b5\<rparr>) env imageIndex
                                     [renderFinishedSemaphore slot]))))))"

text \<open>\<open>render_try\<close> is the whole \<open>try\<close> block: the wait, the acquisition, and the rest.\<close>

definition render_try :: "VulkanEngine \<Rightarrow> frame_env \<Rightarrow> (error + render_exit) \<times> VulkanEngine" where
  "render_try s env =
     (case waitForFrame (m_synchronization s) (gpu s) (m_currentFrame s) UINT64_MAX
             (waitReported env) of
        (Inl e, b1) \<Rightarrow> (Inl e, s\<lparr>gpu := b1\<rparr>)
      | (Inr False, b1) \<Rightarrow> (Inr ReturnedWaitFailed, s\<lparr>gpu := b1\<rparr>)
      | (Inr True, b1) \<Rightarrow>
          (case getFrameSyncObjects (m_synchronization s) (m_currentFrame s) of
             Inl e \<Rightarrow> (Inl e, s\<lparr>gpu := b1\<rparr>)
           | Inr slot \<Rightarrow>
               (case acquireNextImage b1 UINT64_MAX (imageAvailableSemaphore slot) 0
                       (acquireReported env) of
                  (result, b2) \<Rightarrow>
                    if result = VK_ERROR_OUT_OF_DATE_KHR
                    then (case recreateSwapchain (s\<lparr>gpu := b2\<rparr>) (tryRecreate env) of
                            (Some e, s1) \<Rightarrow> (Inl e, s1)
                          | (None, s1) \<Rightarrow> (Inr ReturnedOutOfDate, s1))
                    else if result \<noteq> VK_SUCCESS \<and> result \<noteq> VK_SUBOPTIMAL_KHR
                    then (Inl (ResultError ''Failed to acquire swapchain image: '' result),
                          s\<lparr>gpu := b2\<rparr>)
                    else render_draw (s\<lparr>gpu := b2\<rparr>) env (acquiredImageIndex env))))"

text \<open>
  \<open>VulkanEngine::render\<close>. The handler of the \<open>try\<close> block runs \<open>recreateSwapchain\<close> once;
  when that throws too, the handler's \<open>throw\<close> lets the exception leave \<open>render\<close>.
\<close>

definition render :: "VulkanEngine \<Rightarrow> frame_env \<Rightarrow> render_exit \<times> VulkanEngine" where
  "render s env =
     (if m_initState s \<noteq> FULLY_INITIALIZED
      then (Threw (RuntimeError ''Cannot render: engine not fully initialized''), s)
      else if m_windowWidth s = 0 \<or> m_windowHeight s = 0
      then (ReturnedMinimized, s)
      else
        (case render_try s env of
           (Inr how, s1) \<Rightarrow> (how, s1)
         | (Inl e, s1) \<Rightarrow>
             (case recreateSwapchain s1 (catchRecreate env) of
                (Some recreateError, s2) \<Rightarrow> (Threw recreateError, s2)
              | (None, s2) \<Rightarrow> (Recovered e, s2))))"

text \<open>
  A run of \<open>render\<close> calls, one per element of the list, each on the state the previous
  call left, the way the application's loop makes them.
\<close>

fun render_loop :: "VulkanEngine \<Rightarrow> frame_env list \<Rightarrow> render_exit list \<times> VulkanEngine" where
  "render_loop s [] = ([], s)"
| "render_loop s (env # envs) =
     (case render s env of
        (how, s1) \<Rightarrow>
          (case render_loop s1 envs of (hows, s2) \<Rightarrow> (how # hows, s2)))"

subsection \<open>Construction and initialization\<close>

text \<open>The constructor's member initializers, for an engine that talks to backend \<open>b\<close>.\<close>

definition VulkanEngine_new :: "vk_backend \<Rightarrow> VulkanEngine" where
  "VulkanEngine_new b =
     \<lparr>m_initState = NOT_INITIALIZED, m_windowWidth = 0, m_windowHeight = 0,
      m_currentFrame = 0, m_frameCount = 0, m_lastFrameTime = 0, m_time = 0,
      m_device = 0, m_synchronization = VulkanSynchronization_new,
      m_swapchain = 0, m_swapchainImages = 0, m_framebuffers = 0, m_pipeline = 0,
      m_commandBuffers = [], m_uniformBuffers = [], m_descriptorSets = [],
      m_vertexBuffer = 0, m_indexBuffer = 0, m_useMainCharacter = False,
      m_mainCharacter = \<lparr>isLoaded = False, characterVertexBuffer = 0,
                          characterIndexBuffer = 0, characterIndexCount = 0\<rparr>,
      gpu = b\<rparr>"

text \<open>
  What the device reports during \<open>initialize\<close>. Steps 1 to 8 (instance, surface, device,
  swapchain, render pass, pipeline, descriptors, command pool, buffers) are one-shot
  setup calls; the model takes their joint status, the number of swapchain images, and
  whether the character model could be loaded.
\<close>

record init_env =
  setupReported :: VkResult
  initialImageCount :: nat
  syncReported :: "nat \<Rightarrow> slot_create_env"
  characterReported :: "MainCharacter option"

text \<open>
  The part of \<open>cleanup\<close> that the frame state shows: the state machine, the counters and
  the per-frame objects are reset.
\<close>

definition cleanup :: "VulkanEngine \<Rightarrow> VulkanEngine" where
  "cleanup s =
     s\<lparr>m_initState := NOT_INITIALIZED, m_currentFrame := 0, m_frameCount := 0,
       m_commandBuffers := [], m_uniformBuffers := [], m_descriptorSets := []\<rparr>"

definition fresh_handles :: "handle \<Rightarrow> nat \<Rightarrow> handle list" where
  "fresh_handles first n = map (\<lambda>i. first + i) [0 ..< n]"

definition initialize ::
  "VulkanEngine \<Rightarrow> u32 \<Rightarrow> u32 \<Rightarrow> init_env \<Rightarrow> error option \<times> VulkanEngine" where
  "initialize s windowWidth windowHeight reported =
     (let s0 = s\<lparr>m_windowWidth := windowWidth, m_windowHeight := windowHeight\<rparr> in
      case checkVulkanResult (setupReported reported) ''Failed to set up the device'' of
        Some e \<Rightarrow> (Some e, cleanup s0)
      | None \<Rightarrow>
          (let h = next_handle (gpu s0);
               n = unat MAX_FRAMES_IN_FLIGHT;
               s1 = s0\<lparr>m_device := h, m_swapchain := h + 1,
                        m_swapchainImages := initialImageCount reported,
                        m_framebuffers := initialImageCount reported,
                        m_pipeline := h + 2, m_vertexBuffer := h + 3, m_indexBuffer := h + 4,
                        m_commandBuffers := fresh_handles (h + 5) n,
                        m_uniformBuffers := fresh_handles (h + 5 + n) n,
                        m_descriptorSets := fresh_handles (h + 5 + 2 * n) n,
                        m_initState := BUFFERS_CREATED,
                        gpu := (gpu s0)\<lparr>next_handle := h + 5 + 3 * n\<rparr>\<rparr>
           in case create (m_synchronization s1) (gpu s1) MAX_FRAMES_IN_FLIGHT
                     (syncReported reported) of
                (Some e, sync, b) \<Rightarrow> (Some e, cleanup (s1\<lparr>m_synchronization := sync, gpu := b\<rparr>))
              | (None, sync, b) \<Rightarrow>
                  (let s2 = s1\<lparr>m_synchronization := sync, gpu := b,
                               m_initState := SYNCHRONIZATION_CREATED\<rparr>;
                       s3 = (case characterReported reported of
                               Some character \<Rightarrow>
                                 s2\<lparr>m_useMainCharacter := True, m_mainCharacter := character\<rparr>
                             | None \<Rightarrow> s2\<lparr>m_useMainCharacter := False\<rparr>)
                   in (None, s3\<lparr>m_initState := FULLY_INITIALIZED\<rparr>))))"

text \<open>
  The conditions of a frame in which nothing fails: every backend call of the frame
  reports \<open>VK_SUCCESS\<close>. \<open>draw_succeeds\<close> is the part after the acquisition.
\<close>

definition draw_succeeds :: "frame_env \<Rightarrow> bool" where
  "draw_succeeds env =
     (resetFenceReported env = VK_SUCCESS \<and> mapMemoryReported env = VK_SUCCESS
      \<and> resetCommandBufferReported env = VK_SUCCESS
      \<and> beginCommandBufferReported env = VK_SUCCESS
      \<and> endCommandBufferReported env = VK_SUCCESS
      \<and> queueSubmitReported env = VK_SUCCESS \<and> presentReported env = VK_SUCCESS)"

definition no_failure :: "frame_env \<Rightarrow> bool" where
  "no_failure env =
     (waitReported env = VK_SUCCESS \<and> acquireReported env = VK_SUCCESS \<and> draw_succeeds env)"

text \<open>What one \<open>recreateSwapchain\<close> needs to go through: every call reports success.\<close>

definition recreate_succeeds :: "recreate_env \<Rightarrow> bool" where
  "recreate_succeeds r =
     (waitIdleReported r = VK_SUCCESS \<and> swapchainReported r = VK_SUCCESS
      \<and> framebuffersReported r = VK_SUCCESS \<and> pipelineReported r = VK_SUCCESS)"

text \<open>
  The members a skipped or aborted frame must leave alone: the frame-slot index and the
  frame counter.
\<close>

definition frame_state :: "VulkanEngine \<Rightarrow> u32 \<times> u64" where
  "frame_state s = (m_currentFrame s, m_frameCount s)"

text \<open>The fence of the engine's current frame slot, and whether it is signaled.\<close>

definition current_fence :: "VulkanEngine \<Rightarrow> handle" where
  "current_fence s =
     inFlightFence (m_frameSyncObjects (m_synchronization s) ! unat (m_currentFrame s))"

definition current_fence_signaled :: "VulkanEngine \<Rightarrow> bool" where
  "current_fence_signaled s = fence_signaled (gpu s) (current_fence s)"



section \<open>Concrete inputs\<close>

text \<open>
  A backend on which nothing has been created or called yet, device answers in which
  every call succeeds, and an initialization in which every step succeeds on a chain of
  three images.
\<close>

definition backend_new :: vk_backend where
  "backend_new = \<lparr>fence_signaled = (\<lambda>f. False), next_handle = 1, calls = []\<rparr>"

definition recreate_ok :: recreate_env where
  "recreate_ok =
     \<lparr>waitIdleReported = VK_SUCCESS, swapchainReported = VK_SUCCESS, swapchainImageCount = 3,
      framebuffersReported = VK_SUCCESS, pipelineReported = VK_SUCCESS\<rparr>"

definition frame_ok :: frame_env where
  "frame_ok =
     \<lparr>waitReported = VK_SUCCESS, acquireReported = VK_SUCCESS, acquiredImageIndex = 0,
      resetFenceReported = VK_SUCCESS, mapMemoryReported = VK_SUCCESS,
      resetCommandBufferReported = VK_SUCCESS, beginCommandBufferReported = VK_SUCCESS,
      endCommandBufferReported = VK_SUCCESS, queueSubmitReported = VK_SUCCESS,
      presentReported = VK_SUCCESS, tryRecreate = recreate_ok, catchRecreate = recreate_ok,
      frameDuration = 16\<rparr>"

definition slot_created :: "slot_create_env \<Rightarrow> bool" where
  "slot_created r =
     (imageAvailableReported r = VK_SUCCESS \<and> renderFinishedReported r = VK_SUCCESS
      \<and> inFlightReported r = VK_SUCCESS)"

definition slot_ok :: slot_create_env where
  "slot_ok =
     \<lparr>imageAvailableReported = VK_SUCCESS, renderFinishedReported = VK_SUCCESS,
      inFlightReported = VK_SUCCESS\<rparr>"

definition init_ok :: init_env where
  "init_ok =
     \<lparr>setupReported = VK_SUCCESS, initialImageCount = 3, syncReported = (\<lambda>i. slot_ok),
      characterReported = None\<rparr>"

text \<open>
  An engine initialized on a window of width 0; an engine initialized on an 800 by 600
  window; and that engine with the work of every frame slot still pending (no fence
  signaled), as it is once each slot has been submitted.
\<close>

definition minimized_engine :: VulkanEngine where
  "minimized_engine = snd (initialize (VulkanEngine_new backend_new) 0 600 init_ok)"

definition fresh_engine :: VulkanEngine where
  "fresh_engine = snd (initialize (VulkanEngine_new backend_new) 800 600 init_ok)"

definition pending_engine :: VulkanEngine where
  "pending_engine =
     fresh_engine\<lparr>gpu := (gpu fresh_engine)\<lparr>fence_signaled := (\<lambda>f. False)\<rparr>\<rparr>"




section \<open>Predicates used in the proofs\<close>

text \<open>
  What every step of a frame other than the final advance keeps: state machine, window
  size, frame state, synchronization objects, per-frame object lists, fence states.
\<close>

definition kept :: "VulkanEngine \<Rightarrow> VulkanEngine \<Rightarrow> bool" where
  "kept s s' =
     (m_initState s' = m_initState s \<and> m_windowWidth s' = m_windowWidth s
      \<and> m_windowHeight s' = m_windowHeight s \<and> m_currentFrame s' = m_currentFrame s
      \<and> m_frameCount s' = m_frameCount s \<and> m_synchronization s' = m_synchronization s
      \<and> m_device s' = m_device s
      \<and> m_commandBuffers s' = m_commandBuffers s
      \<and> m_uniformBuffers s' = m_uniformBuffers s
      \<and> m_descriptorSets s' = m_descriptorSets s
      \<and> fence_signaled (gpu s') = fence_signaled (gpu s))"

text \<open>The backend calls that \<open>recreateSwapchain\<close> makes.\<close>

fun chain_call :: "vk_call \<Rightarrow> bool" where
  "chain_call DeviceWaitIdle = True"
| "chain_call DestroyChainResources = True"
| "chain_call (CreateSwapchainKHR w h) = True"
| "chain_call CreateFramebuffers = True"
| "chain_call CreateGraphicsPipeline = True"
| "chain_call c = False"

definition extends_by :: "(vk_call \<Rightarrow> bool) \<Rightarrow> VulkanEngine \<Rightarrow> VulkanEngine \<Rightarrow> bool" where
  "extends_by P s s' = (\<exists>cs. calls (gpu s') = calls (gpu s) @ cs \<and> list_all P cs)"

text \<open>An engine on which a frame can be rendered.\<close>

definition ready :: "VulkanEngine \<Rightarrow> bool" where
  "ready s =
     (m_initState s = FULLY_INITIALIZED \<and> m_windowWidth s \<noteq> 0 \<and> m_windowHeight s \<noteq> 0
      \<and> length (m_frameSyncObjects (m_synchronization s)) = unat MAX_FRAMES_IN_FLIGHT
      \<and> unat (m_currentFrame s) < unat MAX_FRAMES_IN_FLIGHT)"

section \<open>Lemmas: parameter selection\<close>

lemma find_eq_member:
  "find (\<lambda>x. x = a) xs = (if a \<in> set xs then Some a else None)"
  by (induction xs) auto

text \<open>
  What \<open>choosePresentMode\<close> computes: MAILBOX when available, else IMMEDIATE when
  available, else FIFO.
\<close>

lemma choosePresentMode_order:
  "choosePresentMode modes =
     (if VK_PRESENT_MODE_MAILBOX_KHR \<in> set modes then VK_PRESENT_MODE_MAILBOX_KHR
      else if VK_PRESENT_MODE_IMMEDIATE_KHR \<in> set modes then VK_PRESENT_MODE_IMMEDIATE_KHR
      else VK_PRESENT_MODE_FIFO_KHR)"
  by (simp add: choosePresentMode_def find_eq_member)

lemma and_push_bit_one_iff:
  "(w AND push_bit i 1 \<noteq> 0) = bit (w :: u32) i"
proof -
  have "w AND push_bit i 1 = 0 \<longleftrightarrow> \<not> bit w i"
    by (metis and_exp_eq_0_iff_not_bit push_bit_of_1)
  then show ?thesis by simp
qed

lemma findMemoryType_from_Some:
  "findMemoryType_from k ts tf props = Some r \<longleftrightarrow>
     (k \<le> r \<and> r < k + length ts
      \<and> bit tf r \<and> propertyFlags (ts ! (r - k)) AND props = props
      \<and> (\<forall>j. k \<le> j \<and> j < r \<longrightarrow>
            \<not> (bit tf j \<and> propertyFlags (ts ! (j - k)) AND props = props)))"
proof (induction ts arbitrary: k)
  case Nil
  then show ?case by auto
next
  case (Cons t ts)
  show ?case
    apply (simp only: findMemoryType_from.simps Let_def and_push_bit_one_iff Cons.IH split: if_splits)
    apply (auto simp add: nth_Cons' Suc_le_eq less_Suc_eq_le)
    done
qed

lemma findMemoryType_from_None:
  "findMemoryType_from k ts tf props = None \<longleftrightarrow>
     (\<forall>j. k \<le> j \<and> j < k + length ts \<longrightarrow>
        \<not> (bit tf j \<and> propertyFlags (ts ! (j - k)) AND props = props))"
proof (induction ts arbitrary: k)
  case Nil
  then show ?case by auto
next
  case (Cons t ts)
  show ?case
    apply (simp only: findMemoryType_from.simps Let_def and_push_bit_one_iff Cons.IH split: if_splits)
    apply (auto simp add: nth_Cons' Suc_le_eq less_Suc_eq_le)
    done
qed

section \<open>Lemmas: synchronization objects\<close>

lemma createSemaphoreInternal_signaled:
  "createSemaphoreInternal b name r = (x, b') \<Longrightarrow> fence_signaled b' = fence_signaled b"
  by (auto simp add: createSemaphoreInternal_def vkCreateSemaphore_def called_def
      checkVulkanResult_def split: if_splits)

lemma createFenceInternal_signaled:
  "createFenceInternal b True name r = (Inr fence, b') \<Longrightarrow>
     fence_signaled b' fence \<and> (\<forall>f. fence_signaled b f \<longrightarrow> fence_signaled b' f)"
  by (auto simp add: createFenceInternal_def vkCreateFence_def called_def
      checkVulkanResult_def split: if_splits)

lemma create_loop_signaled:
  "create_loop is reported objs b = (None, objs', b') \<Longrightarrow>
     length objs' = length objs
     \<and> (\<forall>f. fence_signaled b f \<longrightarrow> fence_signaled b' f)
     \<and> (\<forall>j < length objs. j \<notin> set is \<longrightarrow> objs' ! j = objs ! j)
     \<and> (\<forall>j < length objs. j \<in> set is \<longrightarrow> fence_signaled b' (inFlightFence (objs' ! j)))"
proof (induction "is" arbitrary: objs b)
  case Nil
  then show ?case by simp
next
  case (Cons i rest)
  from Cons.prems obtain sem1 b1 sem2 b2 fence b3 where
    s1: "createSemaphoreInternal b ''Frame Image Available''
           (imageAvailableReported (reported i)) = (Inr sem1, b1)"
    and s2: "createSemaphoreInternal b1 ''Frame Render Finished''
           (renderFinishedReported (reported i)) = (Inr sem2, b2)"
    and s3: "createFenceInternal b2 True ''Frame In Flight''
           (inFlightReported (reported i)) = (Inr fence, b3)"
    and rest: "create_loop rest reported
        (objs[i := (objs ! i)\<lparr>imageAvailableSemaphore := sem1\<rparr>,
              i := (objs[i := (objs ! i)\<lparr>imageAvailableSemaphore := sem1\<rparr>] ! i)\<lparr>renderFinishedSemaphore := sem2\<rparr>,
              i := (objs[i := (objs ! i)\<lparr>imageAvailableSemaphore := sem1\<rparr>,
              i := (objs[i := (objs ! i)\<lparr>imageAvailableSemaphore := sem1\<rparr>] ! i)\<lparr>renderFinishedSemaphore := sem2\<rparr>] ! i)\<lparr>inFlightFence := fence\<rparr>]) b3 = (None, objs', b')"
    by (simp add: Let_def split: prod.splits sum.splits)
  let ?objs3 = "objs[i := (objs ! i)\<lparr>imageAvailableSemaphore := sem1\<rparr>,
              i := (objs[i := (objs ! i)\<lparr>imageAvailableSemaphore := sem1\<rparr>] ! i)\<lparr>renderFinishedSemaphore := sem2\<rparr>,
              i := (objs[i := (objs ! i)\<lparr>imageAvailableSemaphore := sem1\<rparr>,
              i := (objs[i := (objs ! i)\<lparr>imageAvailableSemaphore := sem1\<rparr>] ! i)\<lparr>renderFinishedSemaphore := sem2\<rparr>] ! i)\<lparr>inFlightFence := fence\<rparr>]"
  note ih = Cons.IH [OF rest]
  have len: "length ?objs3 = length objs" by simp
  have mono: "\<forall>f. fence_signaled b f \<longrightarrow> fence_signaled b3 f"
    using createSemaphoreInternal_signaled [OF s1] createSemaphoreInternal_signaled [OF s2]
      createFenceInternal_signaled [OF s3] by simp
  have sig: "fence_signaled b3 fence"
    using createFenceInternal_signaled [OF s3] by simp
  have other: "?objs3 ! j = objs ! j" if "j \<noteq> i" for j
    using that by simp
  have at_i: "inFlightFence (?objs3 ! i) = fence" if "i < length objs"
    using that by simp
  show ?case
  proof (intro conjI allI impI)
    show "length objs' = length objs" using ih len by simp
    show "fence_signaled b' f" if "fence_signaled b f" for f
      using ih mono that by blast
    show "objs' ! j = objs ! j" if "j < length objs" "j \<notin> set (i # rest)" for j
      using ih that len other [of j] by auto
    show "fence_signaled b' (inFlightFence (objs' ! j))"
      if j: "j < length objs" "j \<in> set (i # rest)" for j
    proof (cases "j \<in> set rest")
      case True
      with ih j len show ?thesis by auto
    next
      case False
      with j have ji: "j = i" by simp
      from ih j len False have "objs' ! j = ?objs3 ! j" by auto
      with ji at_i j have "inFlightFence (objs' ! j) = fence" by simp
      with sig ih show ?thesis by auto
    qed
  qed
qed

lemma create_signaled:
  assumes "create sync b n reported = (None, sync', b')"
  shows "length (m_frameSyncObjects sync') = unat n
       \<and> (\<forall>j < unat n. fence_signaled b' (inFlightFence (m_frameSyncObjects sync' ! j)))"
proof -
  from assms obtain objs' where
    l: "create_loop [0 ..< unat n] reported
          (resize (unat n) FrameSyncObjects_new (m_frameSyncObjects sync)) b = (None, objs', b')"
    and s: "m_frameSyncObjects sync' = objs'"
    by (auto simp add: create_def split: prod.splits)
  have len: "length (resize (unat n) FrameSyncObjects_new (m_frameSyncObjects sync)) = unat n"
    by (simp add: resize_def)
  from create_loop_signaled [OF l] len s show ?thesis by auto
qed

lemma waitForFrame_signaled:
  assumes "unat i < length (m_frameSyncObjects sync)"
    and "fence_signaled b (inFlightFence (m_frameSyncObjects sync ! unat i))"
  shows "waitForFrame sync b i t r =
           (Inr True, called b (WaitForFences [inFlightFence (m_frameSyncObjects sync ! unat i)] t))"
  using assms by (simp add: waitForFrame_def vkWaitForFences_def Let_def)

lemma wait_each_signaled:
  assumes "\<forall>i \<in> set is. unat i < length (m_frameSyncObjects sync)
              \<and> fence_signaled b (inFlightFence (m_frameSyncObjects sync ! unat i))"
  shows "fst (wait_each sync b is t reported) = map (\<lambda>i. Inr True) is
       \<and> fence_signaled (snd (wait_each sync b is t reported)) = fence_signaled b"
  using assms
proof (induction "is" arbitrary: b)
  case Nil
  then show ?case by simp
next
  case (Cons i rest)
  let ?b1 = "called b (WaitForFences [inFlightFence (m_frameSyncObjects sync ! unat i)] t)"
  have w: "waitForFrame sync b i t (reported i) = (Inr True, ?b1)"
    using Cons.prems by (simp add: waitForFrame_signaled)
  have sig: "fence_signaled ?b1 = fence_signaled b" by (simp add: called_def)
  have "\<forall>i \<in> set rest. unat i < length (m_frameSyncObjects sync)
              \<and> fence_signaled ?b1 (inFlightFence (m_frameSyncObjects sync ! unat i))"
    using Cons.prems sig by simp
  from Cons.IH [OF this] sig w show ?case
    by (simp add: case_prod_unfold)
qed

lemma createSemaphoreInternal_succeeds:
  "\<exists>sem b'. createSemaphoreInternal b name VK_SUCCESS = (Inr sem, b')"
  by (simp add: createSemaphoreInternal_def vkCreateSemaphore_def checkVulkanResult_def)

lemma createFenceInternal_succeeds:
  "\<exists>fence b'. createFenceInternal b sig name VK_SUCCESS = (Inr fence, b')"
  by (simp add: createFenceInternal_def vkCreateFence_def checkVulkanResult_def)

lemma create_loop_succeeds:
  "\<forall>i \<in> set is. slot_created (reported i) \<Longrightarrow>
     \<exists>objs' b'. create_loop is reported objs b = (None, objs', b')"
proof (induction "is" arbitrary: objs b)
  case Nil
  then show ?case by simp
next
  case (Cons i rest)
  from Cons.prems have ok: "imageAvailableReported (reported i) = VK_SUCCESS"
    "renderFinishedReported (reported i) = VK_SUCCESS"
    "inFlightReported (reported i) = VK_SUCCESS"
    by (simp_all add: slot_created_def)
  obtain sem1 b1 where s1: "createSemaphoreInternal b ''Frame Image Available''
      VK_SUCCESS = (Inr sem1, b1)"
    using createSemaphoreInternal_succeeds by blast
  obtain sem2 b2 where s2: "createSemaphoreInternal b1 ''Frame Render Finished''
      VK_SUCCESS = (Inr sem2, b2)"
    using createSemaphoreInternal_succeeds by blast
  obtain fence b3 where s3: "createFenceInternal b2 True ''Frame In Flight''
      VK_SUCCESS = (Inr fence, b3)"
    using createFenceInternal_succeeds by blast
  from Cons.prems have "\<forall>i \<in> set rest. slot_created (reported i)" by simp
  from Cons.IH [OF this] show ?case
    by (simp add: ok s1 s2 s3 Let_def)
qed

lemma create_succeeds:
  assumes "\<forall>i < unat n. slot_created (reported i)"
  shows "\<exists>sync' b'. create sync b n reported = (None, sync', b')"
proof -
  from assms have "\<forall>i \<in> set [0 ..< unat n]. slot_created (reported i)" by simp
  from create_loop_succeeds [OF this] obtain objs' b' where
    "create_loop [0 ..< unat n] reported
       (resize (unat n) FrameSyncObjects_new (m_frameSyncObjects sync)) b = (None, objs', b')"
    by blast
  then show ?thesis by (simp add: create_def)
qed

lemma initialize_succeeds:
  assumes "setupReported ienv = VK_SUCCESS"
    and "\<forall>i < unat MAX_FRAMES_IN_FLIGHT. slot_created (syncReported ienv i)"
  shows "\<exists>s'. initialize s w h ienv = (None, s')
     \<and> m_initState s' = FULLY_INITIALIZED \<and> m_windowWidth s' = w \<and> m_windowHeight s' = h
     \<and> m_currentFrame s' = m_currentFrame s \<and> m_frameCount s' = m_frameCount s
     \<and> m_device s' = next_handle (gpu s)
     \<and> m_framebuffers s' = initialImageCount ienv
     \<and> length (m_frameSyncObjects (m_synchronization s')) = unat MAX_FRAMES_IN_FLIGHT
     \<and> (\<forall>j < unat MAX_FRAMES_IN_FLIGHT.
          fence_signaled (gpu s') (inFlightFence (m_frameSyncObjects (m_synchronization s') ! j)))"
proof -
  let ?s0 = "s\<lparr>m_windowWidth := w, m_windowHeight := h\<rparr>"
  let ?h = "next_handle (gpu ?s0)"
  let ?n = "unat MAX_FRAMES_IN_FLIGHT"
  let ?s1 = "?s0\<lparr>m_device := ?h, m_swapchain := ?h + 1,
                        m_swapchainImages := initialImageCount ienv,
                        m_framebuffers := initialImageCount ienv,
                        m_pipeline := ?h + 2, m_vertexBuffer := ?h + 3, m_indexBuffer := ?h + 4,
                        m_commandBuffers := fresh_handles (?h + 5) ?n,
                        m_uniformBuffers := fresh_handles (?h + 5 + ?n) ?n,
                        m_descriptorSets := fresh_handles (?h + 5 + 2 * ?n) ?n,
                        m_initState := BUFFERS_CREATED,
                        gpu := (gpu ?s0)\<lparr>next_handle := ?h + 5 + 3 * ?n\<rparr>\<rparr>"
  from create_succeeds [OF assms(2)] obtain sync' b' where
    c: "create (m_synchronization ?s1) (gpu ?s1) MAX_FRAMES_IN_FLIGHT (syncReported ienv)
          = (None, sync', b')"
    by blast
  from create_signaled [OF c] have
    sig: "length (m_frameSyncObjects sync') = ?n"
      "\<forall>j < ?n. fence_signaled b' (inFlightFence (m_frameSyncObjects sync' ! j))"
    by simp_all
  from c sig show ?thesis
    by (cases "characterReported ienv")
       (simp_all add: initialize_def Let_def assms(1) checkVulkanResult_def)
qed

section \<open>Lemmas: the frame protocol\<close>

lemma extends_by_trans: "extends_by P s s1 \<Longrightarrow> extends_by P s1 s2 \<Longrightarrow> extends_by P s s2"
  by (auto simp add: extends_by_def)

lemma kept_trans: "kept s s1 \<Longrightarrow> kept s1 s2 \<Longrightarrow> kept s s2" by (simp add: kept_def)

lemma waitIdle_kept: "waitIdle s r = (x, s') \<Longrightarrow> kept s s' \<and> extends_by chain_call s s'"
  by (auto simp add: waitIdle_def kept_def called_def extends_by_def split: if_splits)

lemma destroyChainResources_kept:
  "kept s (destroyChainResources s) \<and> extends_by chain_call s (destroyChainResources s)"
  by (simp add: destroyChainResources_def kept_def called_def extends_by_def)

lemma createSwapchain_kept:
  "createSwapchain s r n = (x, s') \<Longrightarrow> kept s s' \<and> extends_by chain_call s s'"
  by (auto simp add: createSwapchain_def kept_def called_def extends_by_def split: option.splits)

lemma createFramebuffers_kept:
  "createFramebuffers s r = (x, s') \<Longrightarrow> kept s s' \<and> extends_by chain_call s s'"
  by (auto simp add: createFramebuffers_def kept_def called_def extends_by_def split: option.splits)

lemma createGraphicsPipeline_kept:
  "createGraphicsPipeline s r = (x, s') \<Longrightarrow> kept s s' \<and> extends_by chain_call s s'"
  by (auto simp add: createGraphicsPipeline_def kept_def called_def extends_by_def split: option.splits)

lemma recreateSwapchain_kept:
  assumes "recreateSwapchain s r = (x, s')"
  shows "kept s s' \<and> extends_by chain_call s s'"
proof -
  let ?Q = "\<lambda>a b. kept a b \<and> extends_by chain_call a b"
  have tr: "?Q a b \<Longrightarrow> ?Q b c \<Longrightarrow> ?Q a c" for a b c
    by (blast intro: kept_trans extends_by_trans)
  obtain x1 s1 where w: "waitIdle s (waitIdleReported r) = (x1, s1)" by force
  obtain x2 s2 where c: "createSwapchain (destroyChainResources s1) (swapchainReported r)
      (swapchainImageCount r) = (x2, s2)" by force
  obtain x3 s3 where f: "createFramebuffers s2 (framebuffersReported r) = (x3, s3)" by force
  obtain x4 s4 where p: "createGraphicsPipeline s3 (pipelineReported r) = (x4, s4)" by force
  have k1: "?Q s s1" using w by (rule waitIdle_kept)
  have k2: "?Q s s2"
    using tr [OF k1 tr [OF destroyChainResources_kept [of s1] createSwapchain_kept [OF c]]] .
  have k3: "?Q s s3" using tr [OF k2 createFramebuffers_kept [OF f]] .
  have k4: "?Q s s4" using tr [OF k3 createGraphicsPipeline_kept [OF p]] .
  from assms have "s' = s1 \<or> s' = s2 \<or> s' = s3 \<or> s' = s4"
    by (auto simp add: recreateSwapchain_def w c f p split: option.splits)
  with k1 k2 k3 k4 show ?thesis by blast
qed


lemma render_present_Inr:
  assumes "render_present s env i sems = (Inr how, s')"
  shows "how = FrameCompleted
       \<and> m_currentFrame s' = (m_currentFrame s + 1) mod MAX_FRAMES_IN_FLIGHT
       \<and> m_frameCount s' = m_frameCount s + 1"
proof -
  obtain x s1 where r: "recreateSwapchain (s\<lparr>gpu := called (gpu s) (QueuePresentKHR i sems)\<rparr>) (tryRecreate env) = (x, s1)"
    by force
  from recreateSwapchain_kept [OF r] have "m_currentFrame s1 = m_currentFrame s" "m_frameCount s1 = m_frameCount s"
    by (simp_all add: kept_def)
  with assms r show ?thesis
    by (auto simp add: render_present_def presentImage_def split: if_splits option.splits)
qed

lemma updateUniformBuffer_counters:
  "updateUniformBuffer s c r = (x, s') \<Longrightarrow>
     m_currentFrame s' = m_currentFrame s \<and> m_frameCount s' = m_frameCount s"
  by (auto simp add: updateUniformBuffer_def)

lemma resetCommandBuffer_counters:
  "resetCommandBuffer s c r = (x, s') \<Longrightarrow>
     m_currentFrame s' = m_currentFrame s \<and> m_frameCount s' = m_frameCount s"
  by (auto simp add: resetCommandBuffer_def)

lemma recordCommandBuffer_counters:
  "recordCommandBuffer s cb i r1 r2 = (x, s') \<Longrightarrow>
     m_currentFrame s' = m_currentFrame s \<and> m_frameCount s' = m_frameCount s"
  by (auto simp add: recordCommandBuffer_def beginCommandBuffer_def endCommandBuffer_def
      split: option.splits if_splits prod.splits)

lemma render_draw_Inr:
  assumes "render_draw s env i = (Inr how, s')"
  shows "how = FrameCompleted
       \<and> m_currentFrame s' = (m_currentFrame s + 1) mod MAX_FRAMES_IN_FLIGHT
       \<and> m_frameCount s' = m_frameCount s + 1"
proof -
  obtain x1 b1 where a1: "resetFrameFence (m_synchronization s) (gpu s) (m_currentFrame s)
      (resetFenceReported env) = (x1, b1)" by force
  obtain x2 s2 where a2: "updateUniformBuffer (updateScene (s\<lparr>gpu := b1\<rparr>) (m_lastFrameTime s))
      (m_currentFrame s) (mapMemoryReported env) = (x2, s2)" by force
  obtain x3 s3 where a3: "resetCommandBuffer s2 (m_commandBuffers s2 ! unat (m_currentFrame s2))
      (resetCommandBufferReported env) = (x3, s3)" by force
  obtain x4 s4 where a4: "recordCommandBuffer s3 (m_commandBuffers s3 ! unat (m_currentFrame s3)) i
      (beginCommandBufferReported env) (endCommandBufferReported env) = (x4, s4)" by force
  have k: "m_currentFrame s4 = m_currentFrame s \<and> m_frameCount s4 = m_frameCount s"
    using updateUniformBuffer_counters [OF a2] resetCommandBuffer_counters [OF a3]
      recordCommandBuffer_counters [OF a4]
    by (simp add: updateScene_def)
  from assms have "\<exists>b5 sems. render_present (s4\<lparr>gpu := b5\<rparr>) env i sems = (Inr how, s')"
    by (auto simp add: render_draw_def a1 a2 a3 a4 split: prod.splits option.splits sum.splits)
  then obtain b5 sems where p: "render_present (s4\<lparr>gpu := b5\<rparr>) env i sems = (Inr how, s')"
    by blast
  from render_present_Inr [OF p] k show ?thesis by simp
qed

lemma render_try_completed:
  assumes "render_try s env = (Inr FrameCompleted, s')"
  shows "m_currentFrame s' = (m_currentFrame s + 1) mod MAX_FRAMES_IN_FLIGHT
       \<and> m_frameCount s' = m_frameCount s + 1"
proof -
  from assms obtain b2 where
    d: "render_draw (s\<lparr>gpu := b2\<rparr>) env (acquiredImageIndex env) = (Inr FrameCompleted, s')"
    by (auto simp add: render_try_def acquireNextImage_def
        split: prod.splits option.splits sum.splits bool.splits if_splits)
  from render_draw_Inr [OF d] show ?thesis by simp
qed

lemma render_completed:
  assumes "render s env = (FrameCompleted, s')"
  shows "m_currentFrame s' = (m_currentFrame s + 1) mod MAX_FRAMES_IN_FLIGHT
       \<and> m_frameCount s' = m_frameCount s + 1"
proof -
  from assms have "render_try s env = (Inr FrameCompleted, s')"
    by (auto simp add: render_def split: prod.splits option.splits sum.splits if_splits)
  then show ?thesis by (rule render_try_completed)
qed

lemma init_ok_succeeds:
  "setupReported init_ok = VK_SUCCESS
   \<and> (\<forall>i < unat MAX_FRAMES_IN_FLIGHT. slot_created (syncReported init_ok i))"
  by (simp add: init_ok_def slot_ok_def slot_created_def)

lemma minimized_engine_facts:
  "m_initState minimized_engine = FULLY_INITIALIZED \<and> m_windowWidth minimized_engine = 0
   \<and> m_currentFrame minimized_engine = 0 \<and> m_frameCount minimized_engine = 0"
proof -
  from initialize_succeeds [of init_ok "VulkanEngine_new backend_new" 0 600] init_ok_succeeds
  obtain s' where "initialize (VulkanEngine_new backend_new) 0 600 init_ok = (None, s')"
    "m_initState s' = FULLY_INITIALIZED" "m_windowWidth s' = 0"
    "m_currentFrame s' = m_currentFrame (VulkanEngine_new backend_new)"
    "m_frameCount s' = m_frameCount (VulkanEngine_new backend_new)"
    by blast
  then show ?thesis by (simp add: minimized_engine_def VulkanEngine_new_def)
qed

lemma waitForFrame_calls:
  assumes "waitForFrame sync b i t r = (Inr v, b')"
  shows "calls b' = calls b @ [WaitForFences [inFlightFence (m_frameSyncObjects sync ! unat i)] t]
       \<and> unat i < length (m_frameSyncObjects sync)
       \<and> (v \<longrightarrow> fence_signaled b' (inFlightFence (m_frameSyncObjects sync ! unat i)))
       \<and> (\<not> v \<longrightarrow> fence_signaled b' = fence_signaled b)
       \<and> next_handle b' = next_handle b"
  using assms
  by (auto simp add: waitForFrame_def vkWaitForFences_def Let_def called_def
      split: if_splits)

lemma fresh_engine_facts:
  "m_initState fresh_engine = FULLY_INITIALIZED \<and> m_windowWidth fresh_engine = 800
   \<and> m_windowHeight fresh_engine = 600
   \<and> m_currentFrame fresh_engine = 0 \<and> m_frameCount fresh_engine = 0
   \<and> m_device fresh_engine = 1 \<and> m_framebuffers fresh_engine = 3
   \<and> length (m_frameSyncObjects (m_synchronization fresh_engine)) = unat MAX_FRAMES_IN_FLIGHT
   \<and> (\<forall>j < unat MAX_FRAMES_IN_FLIGHT.
          fence_signaled (gpu fresh_engine)
            (inFlightFence (m_frameSyncObjects (m_synchronization fresh_engine) ! j)))
   \<and> fst (initialize (VulkanEngine_new backend_new) 800 600 init_ok) = None"
proof -
  from initialize_succeeds [of init_ok "VulkanEngine_new backend_new" 800 600] init_ok_succeeds
  obtain s' where "initialize (VulkanEngine_new backend_new) 800 600 init_ok = (None, s')"
    "m_initState s' = FULLY_INITIALIZED" "m_windowWidth s' = 800" "m_windowHeight s' = 600"
    "m_currentFrame s' = m_currentFrame (VulkanEngine_new backend_new)"
    "m_frameCount s' = m_frameCount (VulkanEngine_new backend_new)"
    "m_device s' = next_handle (gpu (VulkanEngine_new backend_new))"
    "m_framebuffers s' = initialImageCount init_ok"
    "length (m_frameSyncObjects (m_synchronization s')) = unat MAX_FRAMES_IN_FLIGHT"
    "\<forall>j < unat MAX_FRAMES_IN_FLIGHT.
          fence_signaled (gpu s') (inFlightFence (m_frameSyncObjects (m_synchronization s') ! j))"
    by blast
  then show ?thesis
    by (simp add: fresh_engine_def VulkanEngine_new_def backend_new_def init_ok_def)
qed

lemma unat_of_nat_u32: "j < unat (n :: u32) \<Longrightarrow> unat (of_nat j :: u32) = j"
  by (metis le_unat_uoi less_imp_le_nat)

lemma render_draw_succeeds:
  assumes "unat (m_currentFrame s) < length (m_frameSyncObjects (m_synchronization s))"
    and "draw_succeeds env" and "unat i < m_framebuffers s"
  shows "\<exists>s'. render_draw s env i = (Inr FrameCompleted, s')
           \<and> m_initState s' = m_initState s \<and> m_windowWidth s' = m_windowWidth s
           \<and> m_windowHeight s' = m_windowHeight s
           \<and> m_synchronization s' = m_synchronization s
           \<and> m_framebuffers s' = m_framebuffers s"
  using assms
  by (simp add: draw_succeeds_def render_draw_def resetFrameFence_def vkResetFences_def
      checkVulkanResult_def updateUniformBuffer_def updateScene_def resetCommandBuffer_def
      recordCommandBuffer_def beginCommandBuffer_def recordFrameCommands_def
      bindVertexBuffers_def endCommandBuffer_def getFrameSyncObjects_def
      submitCommandBuffers_def render_present_def presentImage_def Let_def called_def
      recorded_def)

lemma render_try_succeeds:
  assumes "waitForFrame (m_synchronization s) (gpu s) (m_currentFrame s) UINT64_MAX
             (waitReported env) = (Inr True, b1)"
    and "acquireReported env = VK_SUCCESS \<or> acquireReported env = VK_SUBOPTIMAL_KHR"
    and "draw_succeeds env" and "unat (acquiredImageIndex env) < m_framebuffers s"
  shows "\<exists>s'. render_try s env = (Inr FrameCompleted, s')
           \<and> m_initState s' = m_initState s \<and> m_windowWidth s' = m_windowWidth s
           \<and> m_windowHeight s' = m_windowHeight s
           \<and> m_synchronization s' = m_synchronization s
           \<and> m_framebuffers s' = m_framebuffers s"
proof -
  from waitForFrame_calls [OF assms(1)]
  have r: "unat (m_currentFrame s) < length (m_frameSyncObjects (m_synchronization s))"
    by simp
  let ?slot = "m_frameSyncObjects (m_synchronization s) ! unat (m_currentFrame s)"
  let ?s2 = "s\<lparr>gpu := called b1 (AcquireNextImageKHR UINT64_MAX (imageAvailableSemaphore ?slot) 0)\<rparr>"
  have t: "render_try s env = render_draw ?s2 env (acquiredImageIndex env)"
    using assms(1,2) r
    by (auto simp add: render_try_def getFrameSyncObjects_def acquireNextImage_def)
  from render_draw_succeeds [of ?s2 env "acquiredImageIndex env"] r assms(3,4)
  show ?thesis unfolding t by simp
qed

lemma unat_next_frame:
  "unat ((c + 1) mod MAX_FRAMES_IN_FLIGHT) = (unat (c :: u32) + 1) mod 2"
proof -
  have "unat ((c + 1) mod MAX_FRAMES_IN_FLIGHT) = unat (c + 1) mod 2"
    by (simp add: MAX_FRAMES_IN_FLIGHT_def unat_mod)
  also have "unat (c + 1) = (unat c + 1) mod 2 ^ 32"
    by (simp add: unat_word_ariths)
  also have "(unat c + 1) mod 2 ^ 32 mod 2 = (unat c + 1) mod 2"
    by (rule mod_mod_cancel) simp
  finally show ?thesis .
qed

lemma render_succeeds:
  assumes "ready s"
    and "waitReported env = VK_SUCCESS \<or> current_fence_signaled s"
    and "acquireReported env = VK_SUCCESS \<or> acquireReported env = VK_SUBOPTIMAL_KHR"
    and "draw_succeeds env" and "unat (acquiredImageIndex env) < m_framebuffers s"
  shows "\<exists>s'. render s env = (FrameCompleted, s') \<and> ready s'
           \<and> m_framebuffers s' = m_framebuffers s
           \<and> m_currentFrame s' = (m_currentFrame s + 1) mod MAX_FRAMES_IN_FLIGHT
           \<and> m_frameCount s' = m_frameCount s + 1"
proof -
  from assms(1) have r: "unat (m_currentFrame s) < length (m_frameSyncObjects (m_synchronization s))"
    by (simp add: ready_def)
  from assms(2) r have "\<exists>b1. waitForFrame (m_synchronization s) (gpu s) (m_currentFrame s) UINT64_MAX
             (waitReported env) = (Inr True, b1)"
    by (auto simp add: waitForFrame_def vkWaitForFences_def Let_def current_fence_signaled_def
        current_fence_def)
  then obtain b1 where w: "waitForFrame (m_synchronization s) (gpu s) (m_currentFrame s) UINT64_MAX
             (waitReported env) = (Inr True, b1)" by blast
  from render_try_succeeds [OF w assms(3,4,5)] obtain s' where
    t: "render_try s env = (Inr FrameCompleted, s')"
    and k: "m_initState s' = m_initState s" "m_windowWidth s' = m_windowWidth s"
      "m_windowHeight s' = m_windowHeight s" "m_synchronization s' = m_synchronization s"
      "m_framebuffers s' = m_framebuffers s"
    by blast
  from render_try_completed [OF t] have
    a: "m_currentFrame s' = (m_currentFrame s + 1) mod MAX_FRAMES_IN_FLIGHT"
      "m_frameCount s' = m_frameCount s + 1"
    by simp_all
  have "unat (m_currentFrame s') < unat MAX_FRAMES_IN_FLIGHT"
    unfolding a(1) unat_next_frame by (simp add: MAX_FRAMES_IN_FLIGHT_def)
  with assms(1) k have "ready s'" by (simp add: ready_def)
  moreover from assms(1) t have "render s env = (FrameCompleted, s')"
    by (simp add: render_def ready_def)
  ultimately show ?thesis using k a by blast
qed

lemma render_loop_no_failure:
  assumes "ready s"
    and "\<forall>env \<in> set envs. no_failure env \<and> unat (acquiredImageIndex env) < m_framebuffers s"
  shows "fst (render_loop s envs) = replicate (length envs) FrameCompleted
       \<and> m_frameCount (snd (render_loop s envs)) = m_frameCount s + of_nat (length envs)
       \<and> unat (m_currentFrame (snd (render_loop s envs)))
           = (unat (m_currentFrame s) + length envs) mod 2"
  using assms
proof (induction envs arbitrary: s)
  case Nil
  then show ?case by (simp add: ready_def MAX_FRAMES_IN_FLIGHT_def)
next
  case (Cons env envs)
  from Cons.prems(2) have e: "no_failure env" "unat (acquiredImageIndex env) < m_framebuffers s"
    by simp_all
  from render_succeeds [OF Cons.prems(1), of env] e
  obtain s1 where r: "render s env = (FrameCompleted, s1)" and ready1: "ready s1"
    and fb: "m_framebuffers s1 = m_framebuffers s"
    and cur: "m_currentFrame s1 = (m_currentFrame s + 1) mod MAX_FRAMES_IN_FLIGHT"
    and cnt: "m_frameCount s1 = m_frameCount s + 1"
    by (auto simp add: no_failure_def)
  from Cons.prems(2) fb
  have "\<forall>env \<in> set envs. no_failure env \<and> unat (acquiredImageIndex env) < m_framebuffers s1"
    by simp
  note ih = Cons.IH [OF ready1 this]
  have c: "(unat (m_currentFrame s1) + length envs) mod 2
             = (unat (m_currentFrame s) + length (env # envs)) mod 2"
    unfolding cur unat_next_frame by (simp add: mod_add_left_eq)
  from ih r cnt c show ?case
    by (simp add: case_prod_unfold)
qed

lemma initialize_None:
  assumes "initialize s w h ienv = (None, s')"
  shows "m_initState s' = FULLY_INITIALIZED \<and> m_windowWidth s' = w \<and> m_windowHeight s' = h
     \<and> m_currentFrame s' = m_currentFrame s \<and> m_frameCount s' = m_frameCount s
     \<and> m_framebuffers s' = initialImageCount ienv
     \<and> length (m_frameSyncObjects (m_synchronization s')) = unat MAX_FRAMES_IN_FLIGHT
     \<and> (\<forall>j < unat MAX_FRAMES_IN_FLIGHT.
          fence_signaled (gpu s') (inFlightFence (m_frameSyncObjects (m_synchronization s') ! j)))"
proof -
  let ?s0 = "s\<lparr>m_windowWidth := w, m_windowHeight := h\<rparr>"
  let ?h = "next_handle (gpu ?s0)"
  let ?n = "unat MAX_FRAMES_IN_FLIGHT"
  let ?s1 = "?s0\<lparr>m_device := ?h, m_swapchain := ?h + 1,
                        m_swapchainImages := initialImageCount ienv,
                        m_framebuffers := initialImageCount ienv,
                        m_pipeline := ?h + 2, m_vertexBuffer := ?h + 3, m_indexBuffer := ?h + 4,
                        m_commandBuffers := fresh_handles (?h + 5) ?n,
                        m_uniformBuffers := fresh_handles (?h + 5 + ?n) ?n,
                        m_descriptorSets := fresh_handles (?h + 5 + 2 * ?n) ?n,
                        m_initState := BUFFERS_CREATED,
                        gpu := (gpu ?s0)\<lparr>next_handle := ?h + 5 + 3 * ?n\<rparr>\<rparr>"
  obtain x sync' b' where
    c: "create (m_synchronization ?s1) (gpu ?s1) MAX_FRAMES_IN_FLIGHT (syncReported ienv)
          = (x, sync', b')"
    by (metis prod_cases3)
  from assms c have x: "x = None"
    by (auto simp add: initialize_def Let_def checkVulkanResult_def
        split: if_splits option.splits)
  from create_signaled [OF c [unfolded x]] have
    sig: "length (m_frameSyncObjects sync') = ?n"
      "\<forall>j < ?n. fence_signaled b' (inFlightFence (m_frameSyncObjects sync' ! j))"
    by simp_all
  from assms c sig x show ?thesis
    by (cases "characterReported ienv")
       (auto simp add: initialize_def Let_def checkVulkanResult_def split: if_splits)
qed

lemma fresh_engine_ready: "ready fresh_engine"
  using fresh_engine_facts by (simp add: ready_def MAX_FRAMES_IN_FLIGHT_def)

lemma frame_ok_no_failure: "no_failure frame_ok \<and> draw_succeeds frame_ok
   \<and> acquiredImageIndex frame_ok = 0 \<and> recreate_succeeds (tryRecreate frame_ok)"
  by (simp add: no_failure_def draw_succeeds_def frame_ok_def recreate_succeeds_def
      recreate_ok_def)











section \<open>Claims\<close>

text \<open>
  C5. The choice is not the two-level preference MAILBOX, else FIFO: with FIFO and
  IMMEDIATE available and MAILBOX not, \<open>choosePresentMode\<close> returns IMMEDIATE. The
  function's documentation in \<open>VulkanSwapchain.h\<close> lists the preferred modes as
  1. MAILBOX, 2. FIFO, so at this input the function departs from its own documentation.
\<close>

theorem choosePresentMode_fifo_immediate:
  "VK_PRESENT_MODE_MAILBOX_KHR \<notin> set [VK_PRESENT_MODE_FIFO_KHR, VK_PRESENT_MODE_IMMEDIATE_KHR]
   \<and> choosePresentMode [VK_PRESENT_MODE_FIFO_KHR, VK_PRESENT_MODE_IMMEDIATE_KHR]
        = VK_PRESENT_MODE_IMMEDIATE_KHR"
  by (simp add: choosePresentMode_def)

text \<open>
  C7. \<open>findMemoryType\<close> returns index \<open>i\<close> exactly when \<open>i\<close> is the smallest index of a
  reported memory type whose bit is set in the type filter and whose property flags
  include every requested flag; it throws its "Failed to find suitable memory type"
  error exactly when no index is such.
\<close>

theorem findMemoryType_first_fit:
  "(findMemoryType memProperties typeFilter properties = Inr i \<longleftrightarrow>
      i < length memProperties
      \<and> memory_type_fits memProperties typeFilter properties i
      \<and> (\<forall>j < i. \<not> memory_type_fits memProperties typeFilter properties j))
   \<and> (findMemoryType memProperties typeFilter properties
        = Inl (RuntimeError ''Failed to find suitable memory type for buffer'') \<longleftrightarrow>
      (\<forall>j < length memProperties. \<not> memory_type_fits memProperties typeFilter properties j))"
proof -
  have some: "findMemoryType memProperties typeFilter properties = Inr i \<longleftrightarrow>
      findMemoryType_from 0 memProperties typeFilter properties = Some i"
    by (simp add: findMemoryType_def split: option.splits)
  have none: "findMemoryType memProperties typeFilter properties
        = Inl (RuntimeError ''Failed to find suitable memory type for buffer'') \<longleftrightarrow>
      findMemoryType_from 0 memProperties typeFilter properties = None"
    by (simp add: findMemoryType_def split: option.splits)
  show ?thesis
    unfolding some none findMemoryType_from_Some findMemoryType_from_None memory_type_fits_def
    by simp
qed

text \<open>
  Witness: a device with a device-local type (flags 1), a host-visible coherent type
  (flags 6) and a type with all three flags. A request for host-visible coherent memory
  among types 0 to 2 selects type 1; a request for all three flags on the device
  without the third type throws.
\<close>

theorem findMemoryType_first_fit_witness:
  "findMemoryType
     [\<lparr>propertyFlags = 1, heapIndex = 0\<rparr>, \<lparr>propertyFlags = 6, heapIndex = 1\<rparr>,
      \<lparr>propertyFlags = 7, heapIndex = 1\<rparr>] 7 6 = Inr 1
   \<and> findMemoryType
     [\<lparr>propertyFlags = 1, heapIndex = 0\<rparr>, \<lparr>propertyFlags = 6, heapIndex = 1\<rparr>] 3 7
       = Inl (RuntimeError ''Failed to find suitable memory type for buffer'')"
proof -
  let ?m1 = "[\<lparr>propertyFlags = 1, heapIndex = 0\<rparr>, \<lparr>propertyFlags = 6, heapIndex = 1\<rparr>,
      \<lparr>propertyFlags = (7::u32), heapIndex = (1::u32)\<rparr>]"
  let ?m2 = "[\<lparr>propertyFlags = 1, heapIndex = 0\<rparr>,
      \<lparr>propertyFlags = (6::u32), heapIndex = (1::u32)\<rparr>]"
  have a: "(1::nat) < length ?m1 \<and> memory_type_fits ?m1 7 6 1
      \<and> (\<forall>j < 1. \<not> memory_type_fits ?m1 7 6 j)"
    by (simp add: memory_type_fits_def)
  have b: "\<forall>j < length ?m2. \<not> memory_type_fits ?m2 3 7 j"
    by (simp add: memory_type_fits_def less_Suc_eq)
  from a b findMemoryType_first_fit [of ?m1 7 6 1] findMemoryType_first_fit [of ?m2 3 7 0]
  show ?thesis by blast
qed

text \<open>
  C8. The chosen image count is \<open>minImageCount + 1\<close> limited to \<open>maxImageCount\<close> when
  \<open>maxImageCount > 0\<close>, and \<open>minImageCount + 1\<close> when \<open>maxImageCount = 0\<close>; the sum is
  the 32-bit one, and it is the sum of the numbers whenever \<open>minImageCount\<close> is not the
  largest 32-bit value.
\<close>

theorem chooseImageCount_clamped:
  "chooseImageCount capabilities =
     (if maxImageCount capabilities > 0
      then min (minImageCount capabilities + 1) (maxImageCount capabilities)
      else minImageCount capabilities + 1)
   \<and> (unat (minImageCount capabilities) < 2 ^ 32 - 1 \<longrightarrow>
        unat (chooseImageCount capabilities) =
          (if unat (maxImageCount capabilities) > 0
           then min (unat (minImageCount capabilities) + 1) (unat (maxImageCount capabilities))
           else unat (minImageCount capabilities) + 1))"
  by (auto simp add: chooseImageCount_def Let_def min_def word_less_nat_alt unat_word_ariths
      word_le_nat_alt unat_gt_0)

theorem chooseImageCount_clamped_witness:
  "chooseImageCount \<lparr>minImageCount = 2, maxImageCount = 3\<rparr> = 3
   \<and> chooseImageCount \<lparr>minImageCount = 3, maxImageCount = 3\<rparr> = 3
   \<and> chooseImageCount \<lparr>minImageCount = 2, maxImageCount = 0\<rparr> = 3
   \<and> unat (chooseImageCount \<lparr>minImageCount = 2, maxImageCount = 8\<rparr>) = 3"
  using chooseImageCount_clamped [of "\<lparr>minImageCount = 2, maxImageCount = 3\<rparr>"]
        chooseImageCount_clamped [of "\<lparr>minImageCount = 3, maxImageCount = 3\<rparr>"]
        chooseImageCount_clamped [of "\<lparr>minImageCount = 2, maxImageCount = 0\<rparr>"]
        chooseImageCount_clamped [of "\<lparr>minImageCount = 2, maxImageCount = 8\<rparr>"]
  by simp

text \<open>
  C9. Logic errors are thrown before any backend call: \<open>submitCommandBuffers\<close> throws when
  the numbers of wait semaphores and wait stages differ, \<open>bindVertexBuffers\<close> when the
  numbers of buffers and offsets differ, \<open>waitForFrame\<close> and \<open>resetFrameFence\<close> when the
  frame index is not below the number of slots; in each case the backend is returned as
  it was, its call history included.
\<close>

theorem logic_errors_rejected:
  "(length waitSemaphores \<noteq> length waitStages \<longrightarrow>
      submitCommandBuffers b commandBuffers waitSemaphores waitStages signalSemaphores fence
          reported
        = (Some (RuntimeError ''Number of wait semaphores must match number of wait stages''), b))
   \<and> (length buffers \<noteq> length offsets \<longrightarrow>
      bindVertexBuffers b commandBuffer firstBinding buffers offsets
        = (Some (RuntimeError ''Number of vertex buffers must match number of offsets''), b))
   \<and> (unat frameIndex \<ge> length (m_frameSyncObjects sync) \<longrightarrow>
      waitForFrame sync b frameIndex timeout reported
        = (Inl (RuntimeError ''Frame index out of range''), b)
      \<and> resetFrameFence sync b frameIndex reported
        = (Some (RuntimeError ''Frame index out of range''), b))"
  by (simp add: submitCommandBuffers_def bindVertexBuffers_def waitForFrame_def
      resetFrameFence_def)

theorem logic_errors_rejected_witness:
  "submitCommandBuffers backend_new [7] [2, 3] [VK_PIPELINE_STAGE_COLOR_ATTACHMENT_OUTPUT_BIT]
       [4] 5 VK_SUCCESS
     = (Some (RuntimeError ''Number of wait semaphores must match number of wait stages''),
        backend_new)
   \<and> bindVertexBuffers backend_new 7 0 [8, 9] [0]
     = (Some (RuntimeError ''Number of vertex buffers must match number of offsets''),
        backend_new)
   \<and> waitForFrame VulkanSynchronization_new backend_new 0 UINT64_MAX VK_SUCCESS
     = (Inl (RuntimeError ''Frame index out of range''), backend_new)
   \<and> resetFrameFence VulkanSynchronization_new backend_new 0 VK_SUCCESS
     = (Some (RuntimeError ''Frame index out of range''), backend_new)"
  using logic_errors_rejected
    [of "[2, 3]" "[VK_PIPELINE_STAGE_COLOR_ATTACHMENT_OUTPUT_BIT]" backend_new "[7]" "[4]" 5
        VK_SUCCESS "[8, 9]" "[0]" 7 0 VulkanSynchronization_new 0 UINT64_MAX]
  by (simp add: VulkanSynchronization_new_def)

text \<open>
  C10. On an engine that is not in state \<open>FULLY_INITIALIZED\<close>, \<open>render\<close> throws its runtime
  error and leaves the whole engine, backend and call history included, as it was.
\<close>

theorem render_requires_full_initialization:
  "m_initState s \<noteq> FULLY_INITIALIZED \<Longrightarrow>
     render s env = (Threw (RuntimeError ''Cannot render: engine not fully initialized''), s)"
  by (simp add: render_def)

theorem render_requires_full_initialization_witness:
  "render (VulkanEngine_new backend_new) frame_ok
     = (Threw (RuntimeError ''Cannot render: engine not fully initialized''),
        VulkanEngine_new backend_new)"
  using render_requires_full_initialization [of "VulkanEngine_new backend_new" frame_ok]
  by (simp add: VulkanEngine_new_def)

text \<open>
  C3 (as amended). A \<open>render\<close> call on a fully initialized engine whose window width or
  height is zero returns at once and leaves the whole engine as it was: frame-slot
  index, frame counter, synchronization objects and backend.
\<close>

theorem render_minimized_changes_nothing:
  "m_initState s = FULLY_INITIALIZED \<Longrightarrow> m_windowWidth s = 0 \<or> m_windowHeight s = 0 \<Longrightarrow>
     render s env = (ReturnedMinimized, s)"
  by (auto simp add: render_def)

theorem render_minimized_changes_nothing_witness:
  "render minimized_engine frame_ok = (ReturnedMinimized, minimized_engine)"
  using render_minimized_changes_nothing [of minimized_engine frame_ok] minimized_engine_facts
  by simp

text \<open>
  C3 as stated fails: on the engine initialized with width 0 the call returns early, and
  neither the frame counter nor the frame-slot index is the incremented one.
\<close>

theorem render_minimized_counterexample:
  "fst (render minimized_engine frame_ok) = ReturnedMinimized
   \<and> m_frameCount (snd (render minimized_engine frame_ok)) \<noteq> m_frameCount minimized_engine + 1
   \<and> m_currentFrame (snd (render minimized_engine frame_ok))
       \<noteq> (m_currentFrame minimized_engine + 1) mod MAX_FRAMES_IN_FLIGHT"
proof -
  have "render minimized_engine frame_ok = (ReturnedMinimized, minimized_engine)"
    using minimized_engine_facts by (simp add: render_def)
  then show ?thesis
    using minimized_engine_facts by (simp add: MAX_FRAMES_IN_FLIGHT_def)
qed

text \<open>
  C4. When \<open>waitForFrame\<close> for the current slot returns false, \<open>render\<close> returns with the
  engine as it was but for the backend the wait left: frame-slot index and frame counter
  unchanged, every fence in the state it had, and the wait the only backend call made.
  For a slot index in range, \<open>waitForFrame\<close> returns true on \<open>VK_SUCCESS\<close>, false on
  \<open>VK_TIMEOUT\<close>, and throws on every other result of the wait.
\<close>

theorem render_wait_timeout:
  "(m_initState s = FULLY_INITIALIZED \<and> m_windowWidth s \<noteq> 0 \<and> m_windowHeight s \<noteq> 0
      \<and> waitForFrame (m_synchronization s) (gpu s) (m_currentFrame s) UINT64_MAX
            (waitReported env) = (Inr False, b1) \<longrightarrow>
      render s env = (ReturnedWaitFailed, s\<lparr>gpu := b1\<rparr>)
      \<and> frame_state (snd (render s env)) = frame_state s
      \<and> fence_signaled b1 = fence_signaled (gpu s)
      \<and> calls b1 = calls (gpu s) @ [WaitForFences [current_fence s] UINT64_MAX])
   \<and> (unat frameIndex < length (m_frameSyncObjects sync) \<longrightarrow>
      fst (waitForFrame sync b frameIndex timeout reported) =
        (case fst (vkWaitForFences b
                     [inFlightFence (m_frameSyncObjects sync ! unat frameIndex)]
                     timeout reported) of
           VK_SUCCESS \<Rightarrow> Inr True
         | VK_TIMEOUT \<Rightarrow> Inr False
         | failure \<Rightarrow> Inl (CheckFailed ''Failed to wait for frame fence'' failure)))"
proof (intro conjI impI)
  assume a: "m_initState s = FULLY_INITIALIZED \<and> m_windowWidth s \<noteq> 0 \<and> m_windowHeight s \<noteq> 0
      \<and> waitForFrame (m_synchronization s) (gpu s) (m_currentFrame s) UINT64_MAX
            (waitReported env) = (Inr False, b1)"
  then have w: "waitForFrame (m_synchronization s) (gpu s) (m_currentFrame s) UINT64_MAX
            (waitReported env) = (Inr False, b1)" by simp
  from a show r: "render s env = (ReturnedWaitFailed, s\<lparr>gpu := b1\<rparr>)"
    by (simp add: render_def render_try_def)
  from r show "frame_state (snd (render s env)) = frame_state s"
    by (simp add: frame_state_def)
  from waitForFrame_calls [OF w] show "fence_signaled b1 = fence_signaled (gpu s)" by simp
  from waitForFrame_calls [OF w]
  show "calls b1 = calls (gpu s) @ [WaitForFences [current_fence s] UINT64_MAX]"
    by (simp add: current_fence_def)
next
  assume "unat frameIndex < length (m_frameSyncObjects sync)"
  then show "fst (waitForFrame sync b frameIndex timeout reported) =
        (case fst (vkWaitForFences b
                     [inFlightFence (m_frameSyncObjects sync ! unat frameIndex)]
                     timeout reported) of
           VK_SUCCESS \<Rightarrow> Inr True
         | VK_TIMEOUT \<Rightarrow> Inr False
         | failure \<Rightarrow> Inl (CheckFailed ''Failed to wait for frame fence'' failure))"
    by (simp add: waitForFrame_def Let_def case_prod_unfold split: VkResult.splits)
qed

text \<open>
  Witness: on the engine whose slots are all pending, with the device reporting
  \<open>VK_TIMEOUT\<close> for the wait.
\<close>

theorem render_wait_timeout_witness:
  "render pending_engine (frame_ok\<lparr>waitReported := VK_TIMEOUT\<rparr>)
     = (ReturnedWaitFailed,
        pending_engine\<lparr>gpu := called (gpu pending_engine)
                                (WaitForFences [current_fence pending_engine] UINT64_MAX)\<rparr>)
   \<and> fst (waitForFrame (m_synchronization pending_engine) (gpu pending_engine) 0 UINT64_MAX
            VK_TIMEOUT) = Inr False"
proof -
  let ?env = "frame_ok\<lparr>waitReported := VK_TIMEOUT\<rparr>"
  let ?b1 = "called (gpu pending_engine)
               (WaitForFences [current_fence pending_engine] UINT64_MAX)"
  have f: "m_initState pending_engine = FULLY_INITIALIZED \<and> m_windowWidth pending_engine \<noteq> 0
      \<and> m_windowHeight pending_engine \<noteq> 0 \<and> m_currentFrame pending_engine = 0
      \<and> unat (0::u32) < length (m_frameSyncObjects (m_synchronization pending_engine))"
    using fresh_engine_facts by (simp add: pending_engine_def MAX_FRAMES_IN_FLIGHT_def)
  have w: "waitForFrame (m_synchronization pending_engine) (gpu pending_engine)
             (m_currentFrame pending_engine) UINT64_MAX (waitReported ?env) = (Inr False, ?b1)"
    using f
    by (simp add: waitForFrame_def vkWaitForFences_def Let_def current_fence_def)
       (simp add: pending_engine_def)
  have v: "fst (vkWaitForFences (gpu pending_engine)
             [inFlightFence (m_frameSyncObjects (m_synchronization pending_engine) ! unat (0::u32))]
             UINT64_MAX VK_TIMEOUT) = VK_TIMEOUT"
    by (simp add: vkWaitForFences_def Let_def) (simp add: pending_engine_def)
  from render_wait_timeout [of pending_engine ?env ?b1 0 "m_synchronization pending_engine"
      "gpu pending_engine" UINT64_MAX VK_TIMEOUT] f w v
  show ?thesis by simp
qed

text \<open>
  C6. After a successful \<open>create\<close> for \<open>n\<close> slots there are \<open>n\<close> slots, the fence of every
  one is signaled, \<open>waitForFrame\<close> on every one returns true whatever the device would
  report for a pending wait, and so does each of the \<open>n\<close> waits made one after the
  other on slots 0 to \<open>n - 1\<close>.
\<close>

theorem create_starts_signaled:
  assumes "create sync b n reported = (None, sync', b')"
  shows "length (m_frameSyncObjects sync') = unat n
       \<and> (\<forall>j < unat n. fence_signaled b' (inFlightFence (m_frameSyncObjects sync' ! j)))
       \<and> (\<forall>j < unat n.
            waitForFrame sync' b' (of_nat j) timeout r =
              (Inr True,
               called b' (WaitForFences [inFlightFence (m_frameSyncObjects sync' ! j)] timeout)))
       \<and> fst (wait_each sync' b' (map of_nat [0 ..< unat n]) timeout rs)
           = replicate (unat n) (Inr True)"
proof -
  from create_signaled [OF assms] have
    len: "length (m_frameSyncObjects sync') = unat n"
    and sig: "\<forall>j < unat n. fence_signaled b' (inFlightFence (m_frameSyncObjects sync' ! j))"
    by simp_all
  have w: "waitForFrame sync' b' (of_nat j) timeout r =
              (Inr True,
               called b' (WaitForFences [inFlightFence (m_frameSyncObjects sync' ! j)] timeout))"
    if "j < unat n" for j
    using waitForFrame_signaled [of "of_nat j" sync' b' timeout r] that len sig
    by (simp add: unat_of_nat_u32)
  have "\<forall>i \<in> set (map of_nat [0 ..< unat n] :: u32 list).
          unat i < length (m_frameSyncObjects sync')
          \<and> fence_signaled b' (inFlightFence (m_frameSyncObjects sync' ! unat i))"
    using len sig by (auto simp add: unat_of_nat_u32)
  from wait_each_signaled [OF this, of timeout rs]
  have e: "fst (wait_each sync' b' (map of_nat [0 ..< unat n]) timeout rs)
           = replicate (unat n) (Inr True)"
    by (simp add: map_replicate_const)
  from len sig w e show ?thesis by blast
qed

theorem create_starts_signaled_witness:
  "fst (create VulkanSynchronization_new backend_new 2 (\<lambda>i. slot_ok)) = None
   \<and> length (m_frameSyncObjects
        (fst (snd (create VulkanSynchronization_new backend_new 2 (\<lambda>i. slot_ok))))) = 2
   \<and> fst (wait_each (fst (snd (create VulkanSynchronization_new backend_new 2 (\<lambda>i. slot_ok))))
            (snd (snd (create VulkanSynchronization_new backend_new 2 (\<lambda>i. slot_ok))))
            [0, 1] UINT64_MAX (\<lambda>i. VK_TIMEOUT)) = [Inr True, Inr True]"
proof -
  have "\<forall>i < unat (2::u32). slot_created (slot_ok)"
    by (simp add: slot_ok_def slot_created_def)
  from create_succeeds [OF this, of VulkanSynchronization_new backend_new]
  obtain sync' b' where
    c: "create VulkanSynchronization_new backend_new 2 (\<lambda>i. slot_ok) = (None, sync', b')"
    by blast
  have n: "unat (2::u32) = 2" by simp
  have u: "map of_nat [0 ..< unat (2::u32)] = [0, 1 :: u32]"
    unfolding n by (simp add: upt_rec)
  have p: "replicate (unat (2::u32)) x = [x, x]" for x :: "error + bool"
    unfolding n by (simp add: numeral_2_eq_2)
  from create_starts_signaled [OF c, of UINT64_MAX VK_TIMEOUT "\<lambda>i. VK_TIMEOUT"]
  have "length (m_frameSyncObjects sync') = unat (2::u32)
      \<and> fst (wait_each sync' b' (map of_nat [0 ..< unat (2::u32)]) UINT64_MAX (\<lambda>i. VK_TIMEOUT))
           = replicate (unat (2::u32)) (Inr True)"
    by blast
  then have "length (m_frameSyncObjects sync') = unat (2::u32)
      \<and> fst (wait_each sync' b' [0, 1] UINT64_MAX (\<lambda>i. VK_TIMEOUT)) = [Inr True, Inr True]"
    by (simp only: u p)
  then show ?thesis
    by (simp only: c fst_conv snd_conv n)
qed

text \<open>
  C1. A \<open>render\<close> call that runs to the end of its \<open>try\<close> block leaves the frame-slot
  index at (previous + 1) mod \<open>MAX_FRAMES_IN_FLIGHT\<close> and the frame counter at previous
  + 1 (the 64-bit sum, which is the sum of the numbers below the largest value). From a freshly initialized engine (two slots) on a window of non-zero size, ten
  calls in which every backend call succeeds and every acquired image index is one of
  the chain's all complete, and leave the frame counter at 10 and the slot index at 0.
\<close>

theorem frame_advance:
  "(render s env = (FrameCompleted, s') \<longrightarrow>
      m_currentFrame s' = (m_currentFrame s + 1) mod MAX_FRAMES_IN_FLIGHT
      \<and> unat (m_currentFrame s') = (unat (m_currentFrame s) + 1) mod unat MAX_FRAMES_IN_FLIGHT
      \<and> m_frameCount s' = m_frameCount s + 1
      \<and> (unat (m_frameCount s) < 2 ^ 64 - 1 \<longrightarrow>
           unat (m_frameCount s') = unat (m_frameCount s) + 1))
   \<and> (initialize (VulkanEngine_new b) w h ienv = (None, s0) \<and> w \<noteq> 0 \<and> h \<noteq> 0
      \<and> length envs = 10
      \<and> (\<forall>e \<in> set envs. no_failure e \<and> unat (acquiredImageIndex e) < initialImageCount ienv)
      \<longrightarrow>
      fst (render_loop s0 envs) = replicate 10 FrameCompleted
      \<and> m_frameCount (snd (render_loop s0 envs)) = 10
      \<and> m_currentFrame (snd (render_loop s0 envs)) = 0)"
proof (intro conjI impI)
  assume r: "render s env = (FrameCompleted, s')"
  from render_completed [OF r]
  show "m_currentFrame s' = (m_currentFrame s + 1) mod MAX_FRAMES_IN_FLIGHT"
    and "m_frameCount s' = m_frameCount s + 1"
    by simp_all
  from render_completed [OF r]
  show "unat (m_currentFrame s') = (unat (m_currentFrame s) + 1) mod unat MAX_FRAMES_IN_FLIGHT"
    by (simp add: unat_next_frame) (simp add: MAX_FRAMES_IN_FLIGHT_def)
  assume "unat (m_frameCount s) < 2 ^ 64 - 1"
  with render_completed [OF r] show "unat (m_frameCount s') = unat (m_frameCount s) + 1"
    by (simp add: unat_word_ariths)
next
  assume a: "initialize (VulkanEngine_new b) w h ienv = (None, s0) \<and> w \<noteq> 0 \<and> h \<noteq> 0
      \<and> length envs = 10
      \<and> (\<forall>e \<in> set envs. no_failure e \<and> unat (acquiredImageIndex e) < initialImageCount ienv)"
  then have i: "initialize (VulkanEngine_new b) w h ienv = (None, s0)" by simp
  from initialize_None [OF i] a have rdy: "ready s0"
    and z: "m_currentFrame s0 = 0" "m_frameCount s0 = 0"
    and fb: "m_framebuffers s0 = initialImageCount ienv"
    by (simp_all add: ready_def VulkanEngine_new_def MAX_FRAMES_IN_FLIGHT_def)
  from a fb have "\<forall>e \<in> set envs. no_failure e \<and> unat (acquiredImageIndex e) < m_framebuffers s0"
    by simp
  from render_loop_no_failure [OF rdy this] a z
  have l: "fst (render_loop s0 envs) = replicate 10 FrameCompleted"
    "m_frameCount (snd (render_loop s0 envs)) = 10"
    "unat (m_currentFrame (snd (render_loop s0 envs))) = 0"
    by simp_all
  from l show "fst (render_loop s0 envs) = replicate 10 FrameCompleted"
    and "m_frameCount (snd (render_loop s0 envs)) = 10"
    by simp_all
  from l(3) show "m_currentFrame (snd (render_loop s0 envs)) = 0"
    by (simp add: unat_eq_zero)
qed

theorem frame_advance_witness:
  "fst (render fresh_engine frame_ok) = FrameCompleted
   \<and> m_currentFrame (snd (render fresh_engine frame_ok)) = 1
   \<and> m_frameCount (snd (render fresh_engine frame_ok)) = 1
   \<and> fst (render_loop fresh_engine (replicate 10 frame_ok)) = replicate 10 FrameCompleted
   \<and> m_frameCount (snd (render_loop fresh_engine (replicate 10 frame_ok))) = 10
   \<and> m_currentFrame (snd (render_loop fresh_engine (replicate 10 frame_ok))) = 0"
proof -
  from render_succeeds [OF fresh_engine_ready, of frame_ok] frame_ok_no_failure
    fresh_engine_facts
  obtain s' where r: "render fresh_engine frame_ok = (FrameCompleted, s')"
    by (auto simp add: no_failure_def)
  have i: "initialize (VulkanEngine_new backend_new) 800 600 init_ok = (None, fresh_engine)"
    using fresh_engine_facts by (simp add: fresh_engine_def prod_eq_iff)
  have e: "\<forall>e \<in> set (replicate 10 frame_ok).
             no_failure e \<and> unat (acquiredImageIndex e) < initialImageCount init_ok"
    using frame_ok_no_failure by (simp add: init_ok_def)
  from frame_advance [of fresh_engine frame_ok s' backend_new 800 600 init_ok fresh_engine
      "replicate 10 frame_ok"] r i e fresh_engine_facts
  show ?thesis by (simp add: MAX_FRAMES_IN_FLIGHT_def)
qed



end
